theory Spec2Isabelle
  imports Complex_Main "HOL-Library.Multiset"
begin

section \<open>Modelling conventions\<close>

text \<open>
  The development embeds \<^verbatim>\<open>hist/hist/src/TProfile2Poly.cxx\<close>: the per-bin accumulator
  \<^verbatim>\<open>TProfile2PolyBin\<close> and the aggregator \<^verbatim>\<open>TProfile2Poly\<close>.

  \<^item> \<^verbatim>\<open>Double_t\<close> is idealised as \<open>real\<close>: rounding, infinities and NaN are outside the
    model. Division is the total division of HOL (\<open>x / 0 = 0\<close>) and \<open>sqrt\<close> is the odd
    extension of the square root; on a non-zero divisor and a non-negative radicand they
    agree with the C++ operations up to rounding.
  \<^item> \<^verbatim>\<open>Int_t\<close> and \<^verbatim>\<open>Long64_t\<close> are \<open>int\<close>; no arithmetic of the modelled functions can
    overflow except the conversion of \<^verbatim>\<open>floor(...)\<close> to \<^verbatim>\<open>Int_t\<close> in \<^verbatim>\<open>Fill\<close>, which is
    taken exact: the result is only clamped to the grid of cells.
  \<^item> Member functions take the object and return the updated object.
  \<^item> An access outside an array and a call through a null pointer are undefined
    behaviour in C++; the model returns a \<open>fault\<close> there.
\<close>

section \<open>The bin accumulator \<^verbatim>\<open>TProfile2PolyBin\<close>\<close>

text \<open>
  The error modes. The switch of \<^verbatim>\<open>UpdateError\<close> names \<^verbatim>\<open>kERRORMEAN\<close> and
  \<^verbatim>\<open>kERRORSPREAD\<close> and has a default branch; the enumeration itself is declared outside
  the sources, so every further enumerator is \<open>kERROROTHER n\<close>.
\<close>

datatype EErrorType = kERRORMEAN | kERRORSPREAD | kERROROTHER nat

text \<open>
  The part of the base class \<^verbatim>\<open>TH2PolyBin\<close> that the accumulator writes: the display
  value (\<^verbatim>\<open>SetContent\<close>) and the redraw flag (\<^verbatim>\<open>SetChanged\<close>).
\<close>

record TH2PolyBin =
  fContent :: real
  fChanged :: bool

record TProfile2PolyBin = TH2PolyBin +
  fSumw :: real
  fSumvw :: real
  fSumw2 :: real
  fSumwv2 :: real
  fAverage :: real
  fError :: real
  fErrorMode :: EErrorType

text \<open>
  Both constructors have the same body; the base object comes from the constructor of
  \<^verbatim>\<open>TH2PolyBin\<close>, which is outside the sources, and is a parameter.
\<close>

definition TProfile2PolyBin_ctor :: "TH2PolyBin \<Rightarrow> TProfile2PolyBin" where
  "TProfile2PolyBin_ctor base =
     \<lparr> fContent = fContent base, fChanged = fChanged base,
       fSumw = 0, fSumvw = 0, fSumw2 = 0, fSumwv2 = 0,
       fAverage = 0, fError = 0, fErrorMode = kERRORSPREAD \<rparr>"

definition TProfile2PolyBin_Merge :: "TProfile2PolyBin \<Rightarrow> TProfile2PolyBin \<Rightarrow> TProfile2PolyBin" where
  "TProfile2PolyBin_Merge this toMerge =
     this\<lparr> fSumw := fSumw this + fSumw toMerge,
           fSumvw := fSumvw this + fSumvw toMerge,
           fSumw2 := fSumw2 this + fSumw2 toMerge,
           fSumwv2 := fSumwv2 this + fSumwv2 toMerge \<rparr>"

text \<open>
  Modelled from the spec: \<^verbatim>\<open>GetEffectiveEntries\<close> is an inline member of the header,
  which is missing from the sources. The specification gives
  \<open>effectiveEntries = sumWeight\<^sup>2 / sumWeightSquared\<close>, and 0 if \<open>sumWeightSquared = 0\<close>.
\<close>

definition GetEffectiveEntries :: "TProfile2PolyBin \<Rightarrow> real" where
  "GetEffectiveEntries this =
     (if fSumw2 this = 0 then 0 else (fSumw this * fSumw this) / fSumw2 this)"

definition UpdateAverage :: "TProfile2PolyBin \<Rightarrow> TProfile2PolyBin" where
  "UpdateAverage this =
     (if fSumw this \<noteq> 0 then this\<lparr> fAverage := fSumvw this / fSumw this \<rparr> else this)"

definition UpdateError :: "TProfile2PolyBin \<Rightarrow> TProfile2PolyBin" where
  "UpdateError this =
     (let tmp = (if fSumw this \<noteq> 0
                 then sqrt ((fSumwv2 this / fSumw this) - (fAverage this * fAverage this))
                 else 0)
      in case fErrorMode this of
           kERRORMEAN \<Rightarrow> this\<lparr> fError := tmp / sqrt (GetEffectiveEntries this) \<rparr>
         | kERRORSPREAD \<Rightarrow> this\<lparr> fError := tmp \<rparr>
         | kERROROTHER n \<Rightarrow> this\<lparr> fError := tmp / sqrt (GetEffectiveEntries this) \<rparr>)"

definition TProfile2PolyBin_Update :: "TProfile2PolyBin \<Rightarrow> TProfile2PolyBin" where
  "TProfile2PolyBin_Update this = (UpdateError (UpdateAverage this))\<lparr> fChanged := True \<rparr>"

definition ClearStats :: "TProfile2PolyBin \<Rightarrow> TProfile2PolyBin" where
  "ClearStats this =
     this\<lparr> fSumw := 0, fSumvw := 0, fSumw2 := 0, fSumwv2 := 0, fError := 0, fAverage := 0 \<rparr>"

definition TProfile2PolyBin_Fill :: "TProfile2PolyBin \<Rightarrow> real \<Rightarrow> real \<Rightarrow> TProfile2PolyBin" where
  "TProfile2PolyBin_Fill this val weight =
     TProfile2PolyBin_Update
       (this\<lparr> fSumw := fSumw this + weight,
              fSumvw := fSumvw this + val * weight,
              fSumw2 := fSumw2 this + weight * weight,
              fSumwv2 := fSumwv2 this + weight * val * val \<rparr>)"

text \<open>\<^verbatim>\<open>bin->SetContent(v)\<close> of the base class: the display value of the bin.\<close>

definition SetContent :: "TProfile2PolyBin \<Rightarrow> real \<Rightarrow> TProfile2PolyBin" where
  "SetContent this v = this\<lparr> fContent := v \<rparr>"

section \<open>The aggregator \<^verbatim>\<open>TProfile2Poly\<close>\<close>

datatype fault = OutOfBounds | NullPointer

text \<open>
  Modelled from the spec: the constant \<^verbatim>\<open>kNOverflow\<close> is declared in the header of
  \<^verbatim>\<open>TH2Poly\<close>, which is missing from the sources. The specification fixes 9 overflow
  accumulators.
\<close>

definition kNOverflow :: int where
  "kNOverflow = 9"

text \<open>
  The statistics of the aggregator: the members inherited from the histogram base
  classes (\<^verbatim>\<open>fEntries\<close>, the nine \<^verbatim>\<open>fTsum...\<close>, \<^verbatim>\<open>fNcells\<close>, the plain overflow contents
  \<^verbatim>\<open>fOverflow\<close> and the list \<^verbatim>\<open>fBins\<close>) and its own array \<^verbatim>\<open>fOverflowBins\<close>.
  \<^verbatim>\<open>fBins\<close> is a pointer to the list of bins, null until \<^verbatim>\<open>CreateBin\<close> allocates the list
  for the first bin; the field holds the bins of the list, and the empty list stands for
  the null pointer. A call through \<^verbatim>\<open>fBins\<close> (\<^verbatim>\<open>fBins->GetSize()\<close>, \<^verbatim>\<open>fBins->At(i)\<close>) of
  an aggregator without bin is a \<open>NullPointer\<close> fault.
\<close>

record TProfile2Poly =
  fEntries :: real
  fTsumw :: real
  fTsumw2 :: real
  fTsumwx :: real
  fTsumwx2 :: real
  fTsumwy :: real
  fTsumwy2 :: real
  fTsumwxy :: real
  fTsumwz :: real
  fTsumwz2 :: real
  fNcells :: int
  fOverflow :: "real list"
  fOverflowBins :: "TProfile2PolyBin list"
  fBins :: "TProfile2PolyBin list"

text \<open>
  The spatial partition of \<^verbatim>\<open>TH2Poly\<close>, which the functions below only read: the axis
  limits, the grid of cells and, for every cell, the bins that overlap it, given by their
  position in \<^verbatim>\<open>fBins\<close>. The containment test \<^verbatim>\<open>TH2PolyBin::IsInside\<close> is outside the
  sources; \<open>IsInside p i x y\<close> is its answer for the bin at position \<open>i\<close>.
\<close>

record TH2Poly_partition =
  fXaxis_Xmin :: real
  fXaxis_Xmax :: real
  fYaxis_Xmin :: real
  fYaxis_Xmax :: real
  fStepX :: real
  fStepY :: real
  fCellX :: int
  fCellY :: int
  fCells :: "nat list list"
  IsInside :: "nat \<Rightarrow> real \<Rightarrow> real \<Rightarrow> bool"

text \<open>
  \<^verbatim>\<open>CreateBin\<close> counts the new bin in \<^verbatim>\<open>fNcells\<close> and constructs it; a null polygon
  gives no bin. The list that it allocates for the first bin shows in the model when
  \<^verbatim>\<open>AddBin\<close> appends the bin.
\<close>

definition CreateBin :: "TProfile2Poly \<Rightarrow> TH2PolyBin option \<Rightarrow> TProfile2Poly \<times> TProfile2PolyBin option" where
  "CreateBin this poly =
     (case poly of
        None \<Rightarrow> (this, None)
      | Some base \<Rightarrow> (this\<lparr> fNcells := fNcells this + 1 \<rparr>, Some (TProfile2PolyBin_ctor base)))"

text \<open>
  Modelled from the spec: the constructor and \<^verbatim>\<open>AddBin\<close> of the base class \<^verbatim>\<open>TH2Poly\<close>
  are missing from the sources. A freshly constructed aggregator has entries and global
  sums 0, nine default-constructed overflow accumulators, plain overflow contents 0 and
  no registered bin; the first bin that \<^verbatim>\<open>CreateBin\<close> makes has number
  \<open>fNcells - kNOverflow = 1\<close>, so \<open>fNcells\<close> starts at \<open>kNOverflow\<close>. Registering a region
  appends the bin of \<^verbatim>\<open>CreateBin\<close> to \<^verbatim>\<open>fBins\<close>.
\<close>

definition TProfile2Poly_new :: "TH2PolyBin \<Rightarrow> TProfile2Poly" where
  "TProfile2Poly_new base =
     \<lparr> fEntries = 0, fTsumw = 0, fTsumw2 = 0, fTsumwx = 0, fTsumwx2 = 0, fTsumwy = 0,
       fTsumwy2 = 0, fTsumwxy = 0, fTsumwz = 0, fTsumwz2 = 0,
       fNcells = kNOverflow,
       fOverflow = replicate (nat kNOverflow) 0,
       fOverflowBins = replicate (nat kNOverflow) (TProfile2PolyBin_ctor base),
       fBins = [] \<rparr>"

definition AddBin :: "TProfile2Poly \<Rightarrow> TH2PolyBin \<Rightarrow> TProfile2Poly" where
  "AddBin this base =
     (case CreateBin this (Some base) of
        (this', Some bin) \<Rightarrow> this'\<lparr> fBins := fBins this' @ [bin] \<rparr>
      | (this', None) \<Rightarrow> this')"

definition GetOverflowRegionFromCoordinates :: "TH2Poly_partition \<Rightarrow> TProfile2Poly \<Rightarrow> real \<Rightarrow> real \<Rightarrow> int" where
  "GetOverflowRegionFromCoordinates p this x y =
     (if fNcells this \<le> kNOverflow then 0
      else (if y > fYaxis_Xmax p then - 1 else if y > fYaxis_Xmin p then - 4 else - 7)
         + (if x > fXaxis_Xmax p then - 2 else if x > fXaxis_Xmin p then - 1 else 0))"

text \<open>
  Modelled from the spec: \<^verbatim>\<open>OverflowIdxToArrayIdx\<close> is an inline member of the missing
  header. The specification numbers the overflow accumulators \<open>-1\<close> to \<open>-9\<close> from outside
  and stores number \<open>b\<close> at \<open>overflow[-b-1]\<close>, as the accessors below do.
\<close>

definition OverflowIdxToArrayIdx :: "int \<Rightarrow> int" where
  "OverflowIdxToArrayIdx val = - val - 1"

text \<open>
  The loop of \<^verbatim>\<open>Fill\<close> over the bins of one cell. A cell entry is a pointer to a bin of
  \<^verbatim>\<open>fBins\<close>; a position outside \<^verbatim>\<open>fBins\<close> is a dangling pointer.
\<close>

fun FillCell :: "(nat \<Rightarrow> real \<Rightarrow> real \<Rightarrow> bool) \<Rightarrow> nat list \<Rightarrow> real \<Rightarrow> real \<Rightarrow> real \<Rightarrow> real
    \<Rightarrow> TProfile2Poly \<Rightarrow> fault + TProfile2Poly" where
  "FillCell inside [] xcoord ycoord val weight this = Inr this"
| "FillCell inside (i # rest) xcoord ycoord val weight this =
     (if length (fBins this) \<le> i then Inl NullPointer
      else if inside i xcoord ycoord then
        (let bin = TProfile2PolyBin_Update (TProfile2PolyBin_Fill (fBins this ! i) val weight);
             bin = SetContent bin (fAverage bin)
         in FillCell inside rest xcoord ycoord val weight
              (this\<lparr> fEntries := fEntries this + 1, fBins := (fBins this)[i := bin] \<rparr>))
      else FillCell inside rest xcoord ycoord val weight this)"

text \<open>
  The three blocks of \<^verbatim>\<open>Fill\<close> before the loop: the fill of the overflow accumulator at
  an index inside the array, the cell of the partition that holds the coordinates
  (\<open>n\<close> and \<open>m\<close> clamped to the grid, then \<open>n + fCellX * m\<close>), and the update of the global
  statistics.
\<close>

definition FillOverflowBin :: "TProfile2Poly \<Rightarrow> nat \<Rightarrow> real \<Rightarrow> real \<Rightarrow> TProfile2Poly" where
  "FillOverflowBin this overflow_idx val weight =
     this\<lparr> fOverflowBins := (fOverflowBins this)
             [overflow_idx := TProfile2PolyBin_Fill (fOverflowBins this ! overflow_idx) val weight] \<rparr>"

definition FindCell :: "TH2Poly_partition \<Rightarrow> real \<Rightarrow> real \<Rightarrow> int" where
  "FindCell p xcoord ycoord =
     (let n = \<lfloor>(xcoord - fXaxis_Xmin p) / fStepX p\<rfloor>;
          m = \<lfloor>(ycoord - fYaxis_Xmin p) / fStepY p\<rfloor>;
          n = (if n \<ge> fCellX p then fCellX p - 1 else n);
          m = (if m \<ge> fCellY p then fCellY p - 1 else m);
          n = (if n < 0 then 0 else n);
          m = (if m < 0 then 0 else m)
      in n + fCellX p * m)"

definition UpdateGlobalStatistics :: "TProfile2Poly \<Rightarrow> real \<Rightarrow> real \<Rightarrow> real \<Rightarrow> real \<Rightarrow> TProfile2Poly" where
  "UpdateGlobalStatistics this xcoord ycoord val weight =
     this\<lparr> fTsumw := fTsumw this + weight,
           fTsumw2 := fTsumw2 this + weight * weight,
           fTsumwx := fTsumwx this + weight * xcoord,
           fTsumwx2 := fTsumwx2 this + weight * xcoord * xcoord,
           fTsumwy := fTsumwy this + weight * ycoord,
           fTsumwy2 := fTsumwy2 this + weight * ycoord * ycoord,
           fTsumwxy := fTsumwxy this + weight * xcoord * ycoord,
           fTsumwz := fTsumwz this + weight * val,
           fTsumwz2 := fTsumwz2 this + weight * val * val \<rparr>"

definition TProfile2Poly_Fill :: "TH2Poly_partition \<Rightarrow> TProfile2Poly \<Rightarrow> real \<Rightarrow> real \<Rightarrow> real \<Rightarrow> real
    \<Rightarrow> fault + (int \<times> TProfile2Poly)" where
  "TProfile2Poly_Fill p this xcoord ycoord val weight =
     (let tmp = GetOverflowRegionFromCoordinates p this xcoord ycoord;
          overflow_idx = OverflowIdxToArrayIdx tmp
      in if overflow_idx < 0 \<or> kNOverflow \<le> overflow_idx then Inl OutOfBounds
         else
           let this = FillOverflowBin this (nat overflow_idx) val weight;
               cell = FindCell p xcoord ycoord;
               this = UpdateGlobalStatistics this xcoord ycoord val weight
           in if cell < 0 \<or> int (length (fCells p)) \<le> cell then Inl OutOfBounds
              else case FillCell (IsInside p) (fCells p ! nat cell) xcoord ycoord val weight this of
                     Inl f \<Rightarrow> Inl f
                   | Inr this \<Rightarrow> Inr (tmp, this))"

text \<open>
  \<^verbatim>\<open>TList::At(i)\<close>: the object at position \<open>i\<close>, null outside the list.
\<close>

definition At :: "'a list \<Rightarrow> int \<Rightarrow> 'a option" where
  "At l i = (if 0 \<le> i \<and> i < int (length l) then Some (l ! nat i) else None)"

text \<open>The body of the first loop of \<^verbatim>\<open>Merge\<close>, for one source \<open>histo\<close>.\<close>

definition MergeStats :: "TProfile2Poly \<Rightarrow> TProfile2Poly \<Rightarrow> TProfile2Poly" where
  "MergeStats this histo =
     this\<lparr> fEntries := fEntries this + fEntries histo,
           fTsumw := fTsumw this + fTsumw histo,
           fTsumw2 := fTsumw2 this + fTsumw2 histo,
           fTsumwx := fTsumwx this + fTsumwx histo,
           fTsumwx2 := fTsumwx2 this + fTsumwx2 histo,
           fTsumwy := fTsumwy this + fTsumwy histo,
           fTsumwy2 := fTsumwy2 this + fTsumwy2 histo,
           fTsumwxy := fTsumwxy this + fTsumwxy histo,
           fTsumwz := fTsumwz this + fTsumwz histo,
           fTsumwz2 := fTsumwz2 this + fTsumwz2 histo,
           fOverflowBins :=
             fold (\<lambda>i ov. ov[i := TProfile2PolyBin_Merge (ov ! i) (fOverflowBins histo ! i)])
               [0..<nat kNOverflow] (fOverflowBins this) \<rparr>"

text \<open>The inner loop of the second part: every source merged into the bin \<open>dst\<close>.\<close>

fun MergeSources :: "int \<Rightarrow> TProfile2Poly list \<Rightarrow> TProfile2PolyBin \<Rightarrow> fault + TProfile2PolyBin" where
  "MergeSources i [] dst = Inr dst"
| "MergeSources i (e # es) dst =
     (case At (fBins e) i of
        None \<Rightarrow> Inl NullPointer
      | Some src \<Rightarrow> MergeSources i es (TProfile2PolyBin_Merge dst src))"

text \<open>The outer loop, over the positions \<open>is\<close> still to visit.\<close>

fun MergeBins :: "int list \<Rightarrow> TProfile2Poly list \<Rightarrow> TProfile2PolyBin list \<Rightarrow> fault + TProfile2PolyBin list" where
  "MergeBins [] list bins = Inr bins"
| "MergeBins (i # is) list bins =
     (case At bins i of
        None \<Rightarrow> Inl NullPointer
      | Some dst \<Rightarrow>
          (case MergeSources i list dst of
             Inl f \<Rightarrow> Inl f
           | Inr dst \<Rightarrow> MergeBins is list (bins[nat i := TProfile2PolyBin_Update dst])))"

text \<open>
  The two display passes start with \<^verbatim>\<open>fBins->GetSize()\<close>, a call through the list pointer.
\<close>

definition SetContentToAverage :: "TProfile2Poly \<Rightarrow> fault + TProfile2Poly" where
  "SetContentToAverage this =
     (if fBins this = [] then Inl NullPointer
      else Inr (this\<lparr> fBins := map (\<lambda>bin. let bin = TProfile2PolyBin_Update bin
                                         in SetContent bin (fAverage bin)) (fBins this) \<rparr>))"

definition SetContentToError :: "TProfile2Poly \<Rightarrow> fault + TProfile2Poly" where
  "SetContentToError this =
     (if fBins this = [] then Inl NullPointer
      else Inr (this\<lparr> fBins := map (\<lambda>bin. let bin = TProfile2PolyBin_Update bin
                                         in SetContent bin (fError bin)) (fBins this) \<rparr>))"

text \<open>
  The loop of \<^verbatim>\<open>Merge\<close> that inserts \<^verbatim>\<open>histo->fBins->GetSize()\<close> of every source into the
  set \<^verbatim>\<open>numBinUnique\<close>: a source without bin has a null \<^verbatim>\<open>fBins\<close>.
\<close>

fun InsertBinCounts :: "TProfile2Poly list \<Rightarrow> int set \<Rightarrow> fault + int set" where
  "InsertBinCounts [] numBinUnique = Inr numBinUnique"
| "InsertBinCounts (histo # rest) numBinUnique =
     (if fBins histo = [] then Inl NullPointer
      else InsertBinCounts rest (insert (int (length (fBins histo))) numBinUnique))"

text \<open>
  \<^verbatim>\<open>Merge\<close> on a vector of sources. The sources are read and never written, and the
  model passes them by value: the target is not one of its own sources. The result is
  the returned code and the target.
\<close>

definition TProfile2Poly_Merge :: "TProfile2Poly \<Rightarrow> TProfile2Poly list \<Rightarrow> fault + (int \<times> TProfile2Poly)" where
  "TProfile2Poly_Merge this list =
     (if length list = 0 then Inr (- 1, this)
      else
        case InsertBinCounts list {} of
          Inl f \<Rightarrow> Inl f
        | Inr numBinUnique \<Rightarrow>
            if card numBinUnique \<noteq> 1 then Inr (- 1, this)
            else
              let nbins = Min numBinUnique;
                  this = fold (\<lambda>histo this. MergeStats this histo) list this
              in case MergeBins [0..nbins - 1] list (fBins this) of
                   Inl f \<Rightarrow> Inl f
                 | Inr bins \<Rightarrow>
                     (case SetContentToAverage (this\<lparr> fBins := bins \<rparr>) of
                        Inl f \<Rightarrow> Inl f
                      | Inr this \<Rightarrow> Inr (1, this)))"

text \<open>
  Modelled from the spec: \<^verbatim>\<open>GetNumberOfBins\<close> belongs to the missing header of
  \<^verbatim>\<open>TH2Poly\<close>; the specification calls it the number of interior bins.
\<close>

definition GetNumberOfBins :: "TProfile2Poly \<Rightarrow> int" where
  "GetNumberOfBins this = int (length (fBins this))"

text \<open>
  The per-bin accessors. The getter of the bin that each one calls (\<^verbatim>\<open>GetEntries\<close>,
  \<^verbatim>\<open>GetEntriesW2\<close>, \<^verbatim>\<open>GetEntriesVW\<close>, \<^verbatim>\<open>GetEntriesWV2\<close>, \<^verbatim>\<open>GetError\<close>) is an inline
  member of the missing header and is the first parameter. \<^verbatim>\<open>fBins->At(bin - 1)\<close> is
  inside the list after the first test.
\<close>

definition GetBinEffectiveEntries :: "TProfile2Poly \<Rightarrow> int \<Rightarrow> real" where
  "GetBinEffectiveEntries this bin =
     (if bin > GetNumberOfBins this \<or> bin = 0 \<or> bin < - kNOverflow then 0
      else if bin < 0 then fOverflow this ! nat (- bin - 1)
      else GetEffectiveEntries (fBins this ! nat (bin - 1)))"

definition GetBinEntries :: "(TProfile2PolyBin \<Rightarrow> real) \<Rightarrow> TProfile2Poly \<Rightarrow> int \<Rightarrow> real" where
  "GetBinEntries GetEntries this bin =
     (if bin > GetNumberOfBins this \<or> bin = 0 \<or> bin < - kNOverflow then 0
      else if bin < 0 then GetEntries (fOverflowBins this ! nat (- bin - 1))
      else GetEntries (fBins this ! nat (bin - 1)))"

definition GetBinEntriesW2 :: "(TProfile2PolyBin \<Rightarrow> real) \<Rightarrow> TProfile2Poly \<Rightarrow> int \<Rightarrow> real" where
  "GetBinEntriesW2 GetEntriesW2 this bin =
     (if bin > GetNumberOfBins this \<or> bin = 0 \<or> bin < - kNOverflow then 0
      else if bin < 0 then GetEntriesW2 (fOverflowBins this ! nat (- bin - 1))
      else GetEntriesW2 (fBins this ! nat (bin - 1)))"

definition GetBinEntriesVW :: "(TProfile2PolyBin \<Rightarrow> real) \<Rightarrow> TProfile2Poly \<Rightarrow> int \<Rightarrow> real" where
  "GetBinEntriesVW GetEntriesVW this bin =
     (if bin > GetNumberOfBins this \<or> bin = 0 \<or> bin < - kNOverflow then 0
      else if bin < 0 then GetEntriesVW (fOverflowBins this ! nat (- bin - 1))
      else GetEntriesVW (fBins this ! nat (bin - 1)))"

definition GetBinEntriesWV2 :: "(TProfile2PolyBin \<Rightarrow> real) \<Rightarrow> TProfile2Poly \<Rightarrow> int \<Rightarrow> real" where
  "GetBinEntriesWV2 GetEntriesWV2 this bin =
     (if bin > GetNumberOfBins this \<or> bin = 0 \<or> bin < - kNOverflow then 0
      else if bin < 0 then GetEntriesWV2 (fOverflowBins this ! nat (- bin - 1))
      else GetEntriesWV2 (fBins this ! nat (bin - 1)))"

definition GetBinError :: "(TProfile2PolyBin \<Rightarrow> real) \<Rightarrow> TProfile2Poly \<Rightarrow> int \<Rightarrow> real" where
  "GetBinError GetError this bin =
     (if bin > GetNumberOfBins this \<or> bin = 0 \<or> bin < - kNOverflow then 0
      else if bin < 0 then GetError (fOverflowBins this ! nat (- bin - 1))
      else GetError (fBins this ! nat (bin - 1)))"

definition GetStats :: "TProfile2Poly \<Rightarrow> real list" where
  "GetStats this =
     [fTsumw this, fTsumw2 this, fTsumwx this, fTsumwx2 this, fTsumwy this,
      fTsumwy2 this, fTsumwxy this, fTsumwz this, fTsumwz2 this]"

section \<open>Notions used by the statements\<close>

text \<open>The four moment sums of an accumulator.\<close>

definition moment_sums :: "TProfile2PolyBin \<Rightarrow> real \<times> real \<times> real \<times> real" where
  "moment_sums b = (fSumw b, fSumvw b, fSumw2 b, fSumwv2 b)"

text \<open>
  The variance of the specification, in its words:
  \<open>variance = sumWeightedValueSquared / sumWeight - average\<^sup>2\<close>.
\<close>

definition spec_variance :: "TProfile2PolyBin \<Rightarrow> real" where
  "spec_variance b = fSumwv2 b / fSumw b - (fAverage b)\<^sup>2"

text \<open>
  An accumulator \<open>b\<close> after the sums of the accumulators \<open>srcs\<close> have been added to it.
\<close>

definition sums_added :: "TProfile2PolyBin \<Rightarrow> TProfile2PolyBin list \<Rightarrow> TProfile2PolyBin" where
  "sums_added b srcs =
     b\<lparr> fSumw := fSumw b + sum_list (map fSumw srcs),
        fSumvw := fSumvw b + sum_list (map fSumvw srcs),
        fSumw2 := fSumw2 b + sum_list (map fSumw2 srcs),
        fSumwv2 := fSumwv2 b + sum_list (map fSumwv2 srcs) \<rparr>"

text \<open>
  The array \<^verbatim>\<open>fOverflowBins\<close> has \<^verbatim>\<open>kNOverflow\<close> elements by its type; the partition has
  a grid of \<open>fCellX * fCellY\<close> cells, at least one in each direction and of non-zero width
  and height, whose entries point into \<^verbatim>\<open>fBins\<close>.
\<close>

definition overflow_ok :: "TProfile2Poly \<Rightarrow> bool" where
  "overflow_ok this \<longleftrightarrow> int (length (fOverflowBins this)) = kNOverflow"

definition partition_ok :: "TH2Poly_partition \<Rightarrow> TProfile2Poly \<Rightarrow> bool" where
  "partition_ok p this \<longleftrightarrow>
     0 < fCellX p \<and> 0 < fCellY p \<and> fStepX p \<noteq> 0 \<and> fStepY p \<noteq> 0 \<and>
     int (length (fCells p)) = fCellX p * fCellY p \<and>
     list_all (list_all (\<lambda>i. i < length (fBins this))) (fCells p)"

text \<open>
  The global sum of weights agrees with the overflow accumulators.
\<close>

definition overflow_invariant :: "TProfile2Poly \<Rightarrow> bool" where
  "overflow_invariant this \<longleftrightarrow>
     overflow_ok this \<and> fTsumw this = sum_list (map fSumw (fOverflowBins this))"

text \<open>
  The aggregators that construction, registration of regions, \<^verbatim>\<open>Fill\<close> and \<^verbatim>\<open>Merge\<close>
  produce. A step counts when the call ends without fault; the sources of a merge are
  themselves such aggregators.
\<close>

inductive reachable :: "TProfile2Poly \<Rightarrow> bool" where
  r_new: "reachable (TProfile2Poly_new base)"
| r_add: "reachable this \<Longrightarrow> reachable (AddBin this base)"
| r_fill: "reachable this \<Longrightarrow> TProfile2Poly_Fill p this x y v w = Inr (r, this') \<Longrightarrow> reachable this'"
| r_merge: "reachable this \<Longrightarrow> list_all reachable list \<Longrightarrow>
            TProfile2Poly_Merge this list = Inr (r, this') \<Longrightarrow> reachable this'"

text \<open>
  The sum of \<open>sumWeight\<close> over every accumulator of the aggregator, interior and
  overflow, and over the overflow accumulators alone.
\<close>

definition all_accumulators_sumw :: "TProfile2Poly \<Rightarrow> real" where
  "all_accumulators_sumw this = sum_list (map fSumw (fBins this @ fOverflowBins this))"

definition overflow_sumw :: "TProfile2Poly \<Rightarrow> real" where
  "overflow_sumw this = sum_list (map fSumw (fOverflowBins this))"

section \<open>The scenario of the specification\<close>

text \<open>
  The domain \<open>[0,10] \<times> [0,10]\<close> with one cell and one registered region that covers the
  whole domain.
\<close>

definition scenario_base :: TH2PolyBin where
  "scenario_base = \<lparr> fContent = 0, fChanged = False \<rparr>"

definition scenario_partition :: TH2Poly_partition where
  "scenario_partition =
     \<lparr> fXaxis_Xmin = 0, fXaxis_Xmax = 10, fYaxis_Xmin = 0, fYaxis_Xmax = 10,
       fStepX = 10, fStepY = 10, fCellX = 1, fCellY = 1, fCells = [[0]],
       IsInside = (\<lambda>i x y. 0 \<le> x \<and> x \<le> 10 \<and> 0 \<le> y \<and> y \<le> 10) \<rparr>"

definition scenario_empty :: TProfile2Poly where
  "scenario_empty = TProfile2Poly_new scenario_base"

definition scenario_aggregator :: TProfile2Poly where
  "scenario_aggregator = AddBin scenario_empty scenario_base"


text \<open>The aggregator after \<^verbatim>\<open>Fill(5, 5, 10, 1)\<close>, a sample inside the domain.\<close>

definition scenario_filled :: TProfile2Poly where
  "scenario_filled =
     (case TProfile2Poly_Fill scenario_partition scenario_aggregator 5 5 10 1 of
        Inr (r, this) \<Rightarrow> this
      | Inl f \<Rightarrow> scenario_aggregator)"

text \<open>The aggregator after \<^verbatim>\<open>Fill(-1, -1, 5, 1)\<close>, a sample below and left of the domain.\<close>

definition scenario_low :: TProfile2Poly where
  "scenario_low =
     (case TProfile2Poly_Fill scenario_partition scenario_aggregator (- 1) (- 1) 5 1 of
        Inr (r, this) \<Rightarrow> this
      | Inl f \<Rightarrow> scenario_aggregator)"

text \<open>The aggregator after \<^verbatim>\<open>Fill(0, 5, 10, 1)\<close>, a sample on the left edge of the domain.\<close>

definition scenario_edge :: TProfile2Poly where
  "scenario_edge =
     (case TProfile2Poly_Fill scenario_partition scenario_aggregator 0 5 10 1 of
        Inr (r, this) \<Rightarrow> this
      | Inl f \<Rightarrow> scenario_aggregator)"

text \<open>
  Two aggregators filled once with value 10 and weight 1, merged into an unfilled one on
  the same partition.
\<close>

definition scenario_merged :: TProfile2Poly where
  "scenario_merged =
     (case TProfile2Poly_Merge scenario_aggregator [scenario_filled, scenario_filled] of
        Inr (r, this) \<Rightarrow> this
      | Inl f \<Rightarrow> scenario_aggregator)"

text \<open>
  The same partition with a region that reaches beyond the domain, down to \<open>-2\<close> in both
  directions.
\<close>

definition scenario_wide_partition :: TH2Poly_partition where
  "scenario_wide_partition =
     scenario_partition\<lparr> IsInside := (\<lambda>i x y. - 2 \<le> x \<and> x \<le> 10 \<and> - 2 \<le> y \<and> y \<le> 10) \<rparr>"

text \<open>
  Accumulators: a new one; one filled with the values 10 and 20 of weight 1, in the mode
  of the constructor and in \<^verbatim>\<open>kERRORMEAN\<close>; one filled with the value 3 of weight 1 and
  again of weight \<open>-1\<close>, whose sums cancel.
\<close>

definition scenario_bin0 :: TProfile2PolyBin where
  "scenario_bin0 = TProfile2PolyBin_ctor scenario_base"

definition scenario_bin :: TProfile2PolyBin where
  "scenario_bin = TProfile2PolyBin_Fill (TProfile2PolyBin_Fill scenario_bin0 10 1) 20 1"

definition scenario_bin_mean :: TProfile2PolyBin where
  "scenario_bin_mean = scenario_bin\<lparr> fErrorMode := kERRORMEAN \<rparr>"

definition scenario_bin_cancelled :: TProfile2PolyBin where
  "scenario_bin_cancelled = TProfile2PolyBin_Fill (TProfile2PolyBin_Fill scenario_bin0 3 1) 3 (- 1)"

section \<open>Properties of the accumulator\<close>

lemma Update_sums [simp]:
  "fSumw (TProfile2PolyBin_Update b) = fSumw b"
  "fSumvw (TProfile2PolyBin_Update b) = fSumvw b"
  "fSumw2 (TProfile2PolyBin_Update b) = fSumw2 b"
  "fSumwv2 (TProfile2PolyBin_Update b) = fSumwv2 b"
  "fErrorMode (TProfile2PolyBin_Update b) = fErrorMode b"
  "fContent (TProfile2PolyBin_Update b) = fContent b"
  by (cases "fErrorMode b"; simp add: TProfile2PolyBin_Update_def UpdateError_def UpdateAverage_def)+

lemma Bin_Fill_sums [simp]:
  "fSumw (TProfile2PolyBin_Fill b v w) = fSumw b + w"
  "fSumvw (TProfile2PolyBin_Fill b v w) = fSumvw b + v * w"
  "fSumw2 (TProfile2PolyBin_Fill b v w) = fSumw2 b + w * w"
  "fSumwv2 (TProfile2PolyBin_Fill b v w) = fSumwv2 b + w * v * v"
  by (simp_all add: TProfile2PolyBin_Fill_def)

lemma Update_idem: "TProfile2PolyBin_Update (TProfile2PolyBin_Update b) = TProfile2PolyBin_Update b"
  by (cases "fErrorMode b")
     (simp_all add: TProfile2PolyBin_Update_def UpdateError_def UpdateAverage_def GetEffectiveEntries_def)

lemma sums_added_Nil [simp]: "sums_added b [] = b"
  by (simp add: sums_added_def)

lemma sums_added_Cons: "sums_added b (s # srcs) = sums_added (TProfile2PolyBin_Merge b s) srcs"
  by (simp add: sums_added_def TProfile2PolyBin_Merge_def add.assoc)

lemma fold_Merge_sums_added:
  "fold (\<lambda>src dst. TProfile2PolyBin_Merge dst src) srcs b = sums_added b srcs"
  by (induction srcs arbitrary: b) (simp_all add: sums_added_Cons)

lemma sum_list_map_mset:
  fixes f :: "'a \<Rightarrow> real"
  shows "mset xs = mset ys \<Longrightarrow> sum_list (map f xs) = sum_list (map f ys)"
proof -
  assume "mset xs = mset ys"
  then have "mset (map f xs) = mset (map f ys)" by simp
  then have "sum_mset (mset (map f xs)) = sum_mset (mset (map f ys))" by (rule arg_cong)
  then show ?thesis by (simp only: sum_mset_sum_list)
qed

lemma sums_added_mset: "mset xs = mset ys \<Longrightarrow> sums_added b xs = sums_added b ys"
  unfolding sums_added_def
  using sum_list_map_mset[of xs ys fSumw] sum_list_map_mset[of xs ys fSumvw]
        sum_list_map_mset[of xs ys fSumw2] sum_list_map_mset[of xs ys fSumwv2]
  by simp

lemma Merge_assoc:
  "TProfile2PolyBin_Merge (TProfile2PolyBin_Merge this other) third =
     TProfile2PolyBin_Merge this (TProfile2PolyBin_Merge other third)"
  by (simp add: TProfile2PolyBin_Merge_def add.assoc)

lemma Merge_comm_sums:
  "moment_sums (TProfile2PolyBin_Merge this other) = moment_sums (TProfile2PolyBin_Merge other this)"
  by (simp add: moment_sums_def TProfile2PolyBin_Merge_def add.commute)

section \<open>Properties of \<^verbatim>\<open>Fill\<close>\<close>

text \<open>
  The loop over a cell changes \<^verbatim>\<open>fEntries\<close> and the bins of \<^verbatim>\<open>fBins\<close> only; it returns
  when every entry of the cell points into \<^verbatim>\<open>fBins\<close>, and it changes nothing when no
  bin of the cell contains the sample.
\<close>

lemma FillCell_frame:
  "FillCell inside cs x y v w s = Inr s' \<Longrightarrow>
     fTsumw s' = fTsumw s \<and> fTsumw2 s' = fTsumw2 s \<and> fTsumwx s' = fTsumwx s \<and>
     fTsumwx2 s' = fTsumwx2 s \<and> fTsumwy s' = fTsumwy s \<and> fTsumwy2 s' = fTsumwy2 s \<and>
     fTsumwxy s' = fTsumwxy s \<and> fTsumwz s' = fTsumwz s \<and> fTsumwz2 s' = fTsumwz2 s \<and>
     fNcells s' = fNcells s \<and> fOverflow s' = fOverflow s \<and>
     fOverflowBins s' = fOverflowBins s \<and> length (fBins s') = length (fBins s)"
proof (induction cs arbitrary: s)
  case Nil
  then show ?case by simp
next
  case (Cons i rest)
  show ?case
  proof (cases "length (fBins s) \<le> i")
    case True
    with Cons.prems show ?thesis by simp
  next
    case False
    show ?thesis
    proof (cases "inside i x y")
      case True
      with False Cons.prems Cons.IH show ?thesis
        by (fastforce simp: Let_def)
    next
      case no: False
      with False Cons.prems Cons.IH show ?thesis by simp
    qed
  qed
qed

lemma FillCell_returns:
  "list_all (\<lambda>i. i < length (fBins s)) cs \<Longrightarrow> \<exists>s'. FillCell inside cs x y v w s = Inr s'"
proof (induction cs arbitrary: s)
  case Nil
  then show ?case by simp
next
  case (Cons i rest)
  then show ?case by (simp add: Let_def)
qed

lemma FillCell_outside:
  "list_all (\<lambda>i. i < length (fBins s) \<and> \<not> inside i x y) cs \<Longrightarrow> FillCell inside cs x y v w s = Inr s"
  by (induction cs) simp_all

text \<open>
  The clamped cell lies inside the grid, and the region of an aggregator with a
  registered bin is one of \<open>-1, \<dots>, -9\<close>; it is \<open>-5\<close> exactly on
  \<open>(xmin, xmax] \<times> (ymin, ymax]\<close>, and \<open>region_grid\<close> is the table of the nine cells, row
  by row from the top and from left to right.
\<close>

lemma cell_in_grid:
  fixes n m X Y :: int
  assumes "0 < X" "0 < Y" "0 \<le> n" "n < X" "0 \<le> m" "m < Y"
  shows "0 \<le> n + X * m \<and> n + X * m < X * Y"
proof -
  have "X * m \<le> X * (Y - 1)" using assms by (intro mult_left_mono) auto
  then have "n + X * m < X + X * (Y - 1)" using assms by linarith
  also have "\<dots> = X * Y" by (simp add: algebra_simps)
  finally show ?thesis using assms by simp
qed

lemma FindCell_in_grid:
  assumes "0 < fCellX p" "0 < fCellY p"
  shows "0 \<le> FindCell p x y \<and> FindCell p x y < fCellX p * fCellY p"
proof -
  define n where "n = (let n = \<lfloor>(x - fXaxis_Xmin p) / fStepX p\<rfloor>;
          n = (if n \<ge> fCellX p then fCellX p - 1 else n) in (if n < 0 then 0 else n))"
  define m where "m = (let m = \<lfloor>(y - fYaxis_Xmin p) / fStepY p\<rfloor>;
          m = (if m \<ge> fCellY p then fCellY p - 1 else m) in (if m < 0 then 0 else m))"
  have fc: "FindCell p x y = n + fCellX p * m"
    by (simp add: FindCell_def n_def m_def Let_def)
  have "0 \<le> n" "n < fCellX p" "0 \<le> m" "m < fCellY p"
    using assms by (auto simp: n_def m_def Let_def)
  with cell_in_grid[OF assms, of n m] fc show ?thesis by simp
qed

lemma region_range:
  "kNOverflow < fNcells s \<Longrightarrow>
   - 9 \<le> GetOverflowRegionFromCoordinates p s x y \<and> GetOverflowRegionFromCoordinates p s x y \<le> - 1"
  by (simp add: GetOverflowRegionFromCoordinates_def)

lemma region_centre_iff:
  "kNOverflow < fNcells s \<Longrightarrow>
   GetOverflowRegionFromCoordinates p s x y = - 5 \<longleftrightarrow>
     (fXaxis_Xmin p < x \<and> x \<le> fXaxis_Xmax p \<and> fYaxis_Xmin p < y \<and> y \<le> fYaxis_Xmax p)"
  by (auto simp: GetOverflowRegionFromCoordinates_def)

lemma region_grid:
  assumes "kNOverflow < fNcells s" "fXaxis_Xmin p \<le> fXaxis_Xmax p" "fYaxis_Xmin p \<le> fYaxis_Xmax p"
  shows "GetOverflowRegionFromCoordinates p s x y =
     (if fYaxis_Xmax p < y then
        (if x \<le> fXaxis_Xmin p then - 1 else if x \<le> fXaxis_Xmax p then - 2 else - 3)
      else if fYaxis_Xmin p < y then
        (if x \<le> fXaxis_Xmin p then - 4 else if x \<le> fXaxis_Xmax p then - 5 else - 6)
      else
        (if x \<le> fXaxis_Xmin p then - 7 else if x \<le> fXaxis_Xmax p then - 8 else - 9))"
  using assms by (simp add: GetOverflowRegionFromCoordinates_def)

text \<open>
  What a call of \<^verbatim>\<open>Fill\<close> that ends without fault has done, when it ends so, and what
  it does without a registered bin.
\<close>

lemma Fill_cases:
  assumes "TProfile2Poly_Fill p s x y v w = Inr (r, s')"
  shows "GetOverflowRegionFromCoordinates p s x y = r \<and> - 9 \<le> r \<and> r \<le> - 1 \<and>
         FillCell (IsInside p) (fCells p ! nat (FindCell p x y)) x y v w
           (UpdateGlobalStatistics (FillOverflowBin s (nat (- r - 1)) v w) x y v w) = Inr s'"
  using assms
  by (auto simp add: TProfile2Poly_Fill_def Let_def OverflowIdxToArrayIdx_def kNOverflow_def
      split: if_splits sum.splits)

lemma Fill_effect:
  assumes "TProfile2Poly_Fill p s x y v w = Inr (r, s')"
  shows "GetOverflowRegionFromCoordinates p s x y = r \<and> - 9 \<le> r \<and> r \<le> - 1 \<and>
         kNOverflow < fNcells s \<and>
         fOverflowBins s' = (fOverflowBins s)[nat (- r - 1) :=
            TProfile2PolyBin_Fill (fOverflowBins s ! nat (- r - 1)) v w] \<and>
         fTsumw s' = fTsumw s + w \<and> fNcells s' = fNcells s \<and> fOverflow s' = fOverflow s \<and>
         length (fBins s') = length (fBins s)"
proof -
  note c = Fill_cases[OF assms]
  have cells: "kNOverflow < fNcells s"
    using c by (auto simp: GetOverflowRegionFromCoordinates_def split: if_splits)
  from c have fc: "FillCell (IsInside p) (fCells p ! nat (FindCell p x y)) x y v w
           (UpdateGlobalStatistics (FillOverflowBin s (nat (- r - 1)) v w) x y v w) = Inr s'"
    by blast
  from FillCell_frame[OF fc] c cells show ?thesis
    by (simp add: UpdateGlobalStatistics_def FillOverflowBin_def)
qed

lemma Fill_returns:
  assumes "partition_ok p s" "kNOverflow < fNcells s"
  shows "\<exists>s'. TProfile2Poly_Fill p s x y v w = Inr (GetOverflowRegionFromCoordinates p s x y, s')"
proof -
  let ?r = "GetOverflowRegionFromCoordinates p s x y"
  let ?s1 = "UpdateGlobalStatistics (FillOverflowBin s (nat (OverflowIdxToArrayIdx ?r)) v w) x y v w"
  have rng: "- 9 \<le> ?r \<and> ?r \<le> - 1" using region_range[OF assms(2)] by simp
  have g: "0 \<le> FindCell p x y \<and> FindCell p x y < int (length (fCells p))"
    using FindCell_in_grid[of p x y] assms(1) by (simp add: partition_ok_def)
  then have "nat (FindCell p x y) < length (fCells p)" by linarith
  then have "fCells p ! nat (FindCell p x y) \<in> set (fCells p)" by simp
  with assms(1) have "list_all (\<lambda>i. i < length (fBins s)) (fCells p ! nat (FindCell p x y))"
    by (simp add: partition_ok_def list_all_iff)
  moreover have "fBins ?s1 = fBins s"
    by (simp add: UpdateGlobalStatistics_def FillOverflowBin_def)
  ultimately have "list_all (\<lambda>i. i < length (fBins ?s1)) (fCells p ! nat (FindCell p x y))"
    by simp
  from FillCell_returns[OF this] obtain s' where
    "FillCell (IsInside p) (fCells p ! nat (FindCell p x y)) x y v w ?s1 = Inr s'"
    by blast
  with rng g show ?thesis
    by (simp add: TProfile2Poly_Fill_def Let_def OverflowIdxToArrayIdx_def kNOverflow_def)
qed

lemma Fill_without_bins:
  "fNcells this \<le> kNOverflow \<Longrightarrow> TProfile2Poly_Fill p this x y v w = Inl OutOfBounds"
  by (simp add: TProfile2Poly_Fill_def GetOverflowRegionFromCoordinates_def OverflowIdxToArrayIdx_def)

lemma sum_list_map_update:
  fixes f :: "'a \<Rightarrow> real"
  shows "k < length xs \<Longrightarrow> sum_list (map f (xs[k := b])) = sum_list (map f xs) - f (xs ! k) + f b"
proof (induction xs arbitrary: k)
  case Nil
  then show ?case by simp
next
  case (Cons a xs)
  then show ?case by (cases k) simp_all
qed

lemma Fill_overflow_sum:
  assumes "TProfile2Poly_Fill p s x y v w = Inr (r, s')" "overflow_ok s"
  shows "sum_list (map fSumw (fOverflowBins s')) = sum_list (map fSumw (fOverflowBins s)) + w \<and>
         overflow_ok s'"
proof -
  note e = Fill_effect[OF assms(1)]
  have k: "nat (- r - 1) < length (fOverflowBins s)"
  proof -
    have "- 9 \<le> r" using e by simp
    then have "nat (- r - 1) < 9" by linarith
    then show ?thesis using assms(2) by (simp add: overflow_ok_def kNOverflow_def)
  qed
  show ?thesis
    using e k assms(2) by (simp add: sum_list_map_update overflow_ok_def)
qed

section \<open>Properties of \<^verbatim>\<open>Merge\<close>\<close>

text \<open>
  The loop over the overflow indices merges the arrays position by position.
\<close>

lemma fold_index_update:
  "k \<le> length ov \<Longrightarrow>
   length (fold (\<lambda>i ov. ov[i := f (ov ! i) (src ! i)]) [0..<k] ov) = length ov \<and>
   (\<forall>i < length ov. fold (\<lambda>i ov. ov[i := f (ov ! i) (src ! i)]) [0..<k] ov ! i =
       (if i < k then f (ov ! i) (src ! i) else ov ! i))"
proof (induction k)
  case 0
  then show ?case by simp
next
  case (Suc k)
  then show ?case by (auto simp: nth_list_update)
qed

lemma fold_index_update_map2:
  assumes "length ov = n" "length src = n"
  shows "fold (\<lambda>i ov. ov[i := f (ov ! i) (src ! i)]) [0..<n] ov = map2 f ov src"
  using fold_index_update[of n ov f src] assms
  by (intro nth_equalityI) simp_all

lemma sum_list_map2_Merge:
  "length ov = length src \<Longrightarrow>
   sum_list (map fSumw (map2 TProfile2PolyBin_Merge ov src)) =
     sum_list (map fSumw ov) + sum_list (map fSumw src)"
  by (induction ov src rule: list_induct2) (simp_all add: TProfile2PolyBin_Merge_def)

lemma MergeStats_overflow:
  assumes "overflow_ok this" "overflow_ok histo"
  shows "fOverflowBins (MergeStats this histo) =
           map2 TProfile2PolyBin_Merge (fOverflowBins this) (fOverflowBins histo)"
proof -
  have l: "length (fOverflowBins this) = nat kNOverflow" "length (fOverflowBins histo) = nat kNOverflow"
    using assms by (simp_all add: overflow_ok_def)
  show ?thesis
    by (simp add: MergeStats_def fold_index_update_map2[OF l])
qed

lemma MergeStats_inv:
  assumes "overflow_ok this" "overflow_ok histo"
  shows "overflow_ok (MergeStats this histo) \<and>
         fTsumw (MergeStats this histo) = fTsumw this + fTsumw histo \<and>
         sum_list (map fSumw (fOverflowBins (MergeStats this histo))) =
           sum_list (map fSumw (fOverflowBins this)) + sum_list (map fSumw (fOverflowBins histo)) \<and>
         fBins (MergeStats this histo) = fBins this \<and> fNcells (MergeStats this histo) = fNcells this"
proof -
  have l: "length (fOverflowBins this) = length (fOverflowBins histo)"
    using assms by (simp add: overflow_ok_def)
  have "fTsumw (MergeStats this histo) = fTsumw this + fTsumw histo"
       "fBins (MergeStats this histo) = fBins this" "fNcells (MergeStats this histo) = fNcells this"
    by (simp_all add: MergeStats_def)
  moreover have "sum_list (map fSumw (fOverflowBins (MergeStats this histo))) =
           sum_list (map fSumw (fOverflowBins this)) + sum_list (map fSumw (fOverflowBins histo))"
    unfolding MergeStats_overflow[OF assms] by (rule sum_list_map2_Merge[OF l])
  moreover have "overflow_ok (MergeStats this histo)"
    using assms l by (simp add: MergeStats_overflow[OF assms] overflow_ok_def)
  ultimately show ?thesis by simp
qed

lemma fold_MergeStats_fields:
  "fEntries (fold (\<lambda>histo this. MergeStats this histo) list this) = fEntries this + sum_list (map fEntries list) \<and>
   fTsumw (fold (\<lambda>histo this. MergeStats this histo) list this) = fTsumw this + sum_list (map fTsumw list) \<and>
   fTsumw2 (fold (\<lambda>histo this. MergeStats this histo) list this) = fTsumw2 this + sum_list (map fTsumw2 list) \<and>
   fTsumwx (fold (\<lambda>histo this. MergeStats this histo) list this) = fTsumwx this + sum_list (map fTsumwx list) \<and>
   fTsumwx2 (fold (\<lambda>histo this. MergeStats this histo) list this) = fTsumwx2 this + sum_list (map fTsumwx2 list) \<and>
   fTsumwy (fold (\<lambda>histo this. MergeStats this histo) list this) = fTsumwy this + sum_list (map fTsumwy list) \<and>
   fTsumwy2 (fold (\<lambda>histo this. MergeStats this histo) list this) = fTsumwy2 this + sum_list (map fTsumwy2 list) \<and>
   fTsumwxy (fold (\<lambda>histo this. MergeStats this histo) list this) = fTsumwxy this + sum_list (map fTsumwxy list) \<and>
   fTsumwz (fold (\<lambda>histo this. MergeStats this histo) list this) = fTsumwz this + sum_list (map fTsumwz list) \<and>
   fTsumwz2 (fold (\<lambda>histo this. MergeStats this histo) list this) = fTsumwz2 this + sum_list (map fTsumwz2 list) \<and>
   fNcells (fold (\<lambda>histo this. MergeStats this histo) list this) = fNcells this \<and>
   fOverflow (fold (\<lambda>histo this. MergeStats this histo) list this) = fOverflow this \<and>
   fBins (fold (\<lambda>histo this. MergeStats this histo) list this) = fBins this"
proof (induction list arbitrary: this)
  case Nil
  then show ?case by simp
next
  case (Cons h list)
  have "fEntries (MergeStats this h) = fEntries this + fEntries h"
       "fTsumw (MergeStats this h) = fTsumw this + fTsumw h"
       "fTsumw2 (MergeStats this h) = fTsumw2 this + fTsumw2 h"
       "fTsumwx (MergeStats this h) = fTsumwx this + fTsumwx h"
       "fTsumwx2 (MergeStats this h) = fTsumwx2 this + fTsumwx2 h"
       "fTsumwy (MergeStats this h) = fTsumwy this + fTsumwy h"
       "fTsumwy2 (MergeStats this h) = fTsumwy2 this + fTsumwy2 h"
       "fTsumwxy (MergeStats this h) = fTsumwxy this + fTsumwxy h"
       "fTsumwz (MergeStats this h) = fTsumwz this + fTsumwz h"
       "fTsumwz2 (MergeStats this h) = fTsumwz2 this + fTsumwz2 h"
       "fNcells (MergeStats this h) = fNcells this"
       "fOverflow (MergeStats this h) = fOverflow this"
       "fBins (MergeStats this h) = fBins this"
    by (simp_all add: MergeStats_def)
  with Cons.IH[of "MergeStats this h"] show ?case by (simp add: add.assoc)
qed

lemma fold_MergeStats_overflow:
  assumes "overflow_ok this" "\<forall>h \<in> set list. overflow_ok h"
  shows "overflow_ok (fold (\<lambda>histo this. MergeStats this histo) list this) \<and>
         (\<forall>k < length (fOverflowBins this).
            fOverflowBins (fold (\<lambda>histo this. MergeStats this histo) list this) ! k =
              sums_added (fOverflowBins this ! k) (map (\<lambda>h. fOverflowBins h ! k) list))"
  using assms
proof (induction list arbitrary: this)
  case Nil
  then show ?case by simp
next
  case (Cons h list)
  have ok: "overflow_ok h" using Cons.prems by simp
  have l: "length (fOverflowBins (MergeStats this h)) = length (fOverflowBins this)"
          "length (fOverflowBins h) = length (fOverflowBins this)"
    using Cons.prems(1) ok MergeStats_inv[OF Cons.prems(1) ok] by (simp_all add: overflow_ok_def)
  have ok1: "overflow_ok (MergeStats this h)"
    using MergeStats_inv[OF Cons.prems(1) ok] by simp
  have rest: "\<forall>h \<in> set list. overflow_ok h" using Cons.prems by simp
  have k: "\<forall>k < length (fOverflowBins this). fOverflowBins (MergeStats this h) ! k =
             TProfile2PolyBin_Merge (fOverflowBins this ! k) (fOverflowBins h ! k)"
    using l by (simp add: MergeStats_overflow[OF Cons.prems(1) ok])
  from Cons.IH[OF ok1 rest] k l show ?case by (simp add: sums_added_Cons)
qed

text \<open>
  The loops over the interior bins: position \<open>i\<close> of the target receives the sums of
  position \<open>i\<close> of every source and is updated.
\<close>

lemma MergeSources_eq:
  "\<forall>e \<in> set list. 0 \<le> i \<and> i < int (length (fBins e)) \<Longrightarrow>
   MergeSources i list dst = Inr (sums_added dst (map (\<lambda>e. fBins e ! nat i) list))"
  by (induction list arbitrary: dst) (simp_all add: At_def sums_added_Cons)

lemma MergeBins_eq:
  assumes "distinct is" "\<forall>i \<in> set is. 0 \<le> i \<and> i < int (length bins)"
          "\<forall>i \<in> set is. \<forall>e \<in> set list. i < int (length (fBins e))"
  shows "\<exists>bins'. MergeBins is list bins = Inr bins' \<and> length bins' = length bins \<and>
           (\<forall>j < length bins. bins' ! j =
              (if int j \<in> set is
               then TProfile2PolyBin_Update (sums_added (bins ! j) (map (\<lambda>e. fBins e ! j) list))
               else bins ! j))"
  using assms
proof (induction "is" arbitrary: bins)
  case Nil
  then show ?case by simp
next
  case (Cons i rest)
  let ?d = "TProfile2PolyBin_Update (sums_added (bins ! nat i) (map (\<lambda>e. fBins e ! nat i) list))"
  let ?bins1 = "bins[nat i := ?d]"
  have i: "0 \<le> i" "i < int (length bins)" using Cons.prems(2) by simp_all
  have src: "\<forall>e \<in> set list. 0 \<le> i \<and> i < int (length (fBins e))"
    using Cons.prems(3) i by simp
  have step: "MergeBins (i # rest) list bins = MergeBins rest list ?bins1"
    using i by (simp add: At_def MergeSources_eq[OF src])
  have "distinct rest" "\<forall>k \<in> set rest. 0 \<le> k \<and> k < int (length ?bins1)"
       "\<forall>k \<in> set rest. \<forall>e \<in> set list. k < int (length (fBins e))"
    using Cons.prems by simp_all
  from Cons.IH[OF this] obtain bins' where
    b: "MergeBins rest list ?bins1 = Inr bins'" "length bins' = length ?bins1"
       "\<forall>j < length ?bins1. bins' ! j =
              (if int j \<in> set rest
               then TProfile2PolyBin_Update (sums_added (?bins1 ! j) (map (\<lambda>e. fBins e ! j) list))
               else ?bins1 ! j)"
    by blast
  have "\<forall>j < length bins. bins' ! j =
              (if int j \<in> set (i # rest)
               then TProfile2PolyBin_Update (sums_added (bins ! j) (map (\<lambda>e. fBins e ! j) list))
               else bins ! j)"
  proof (intro allI impI)
    fix j assume j: "j < length bins"
    show "bins' ! j =
              (if int j \<in> set (i # rest)
               then TProfile2PolyBin_Update (sums_added (bins ! j) (map (\<lambda>e. fBins e ! j) list))
               else bins ! j)"
    proof (cases "int j = i")
      case True
      then have "int j \<notin> set rest" using Cons.prems(1) by auto
      moreover have "nat i = j" using True by simp
      ultimately show ?thesis using b(3) j True by auto
    next
      case False
      then have "nat i \<noteq> j" using i by auto
      then show ?thesis using b(3) j False by auto
    qed
  qed
  with b step show ?case by simp
qed

text \<open>
  The test on the bin counts: a source without bin is a fault, then the two failures and
  the successful merge.
\<close>

lemma bin_counts_singleton:
  assumes "h \<in> set list" "\<forall>a \<in> set list. length (fBins a) = n"
  shows "set (map (\<lambda>histo. int (length (fBins histo))) list) = {int n}"
proof (intro equalityI subsetI)
  fix x assume "x \<in> set (map (\<lambda>histo. int (length (fBins histo))) list)"
  then obtain a where "a \<in> set list" "x = int (length (fBins a))" by auto
  with assms(2) show "x \<in> {int n}" by simp
next
  fix x assume "x \<in> {int n}"
  then have "x = int (length (fBins h))" using assms by simp
  with assms(1) show "x \<in> set (map (\<lambda>histo. int (length (fBins histo))) list)" by simp
qed

lemma card_bin_counts:
  assumes "card (set (map (\<lambda>histo. int (length (fBins histo))) list)) = 1"
          "a \<in> set list" "b \<in> set list"
  shows "length (fBins a) = length (fBins b)"
proof -
  from assms(1) obtain x where x: "set (map (\<lambda>histo. int (length (fBins histo))) list) = {x}"
    by (rule card_1_singletonE)
  have "int (length (fBins a)) \<in> set (map (\<lambda>histo. int (length (fBins histo))) list)"
       "int (length (fBins b)) \<in> set (map (\<lambda>histo. int (length (fBins histo))) list)"
    using assms(2,3) by simp_all
  then have "int (length (fBins a)) = x" "int (length (fBins b)) = x"
    unfolding x by simp_all
  then show ?thesis by simp
qed

lemma InsertBinCounts_regions:
  "\<forall>h \<in> set list. fBins h \<noteq> [] \<Longrightarrow>
   InsertBinCounts list acc = Inr (acc \<union> set (map (\<lambda>histo. int (length (fBins histo))) list))"
  by (induction list arbitrary: acc) simp_all

lemma InsertBinCounts_null:
  "\<exists>h \<in> set list. fBins h = [] \<Longrightarrow> InsertBinCounts list acc = Inl NullPointer"
  by (induction list arbitrary: acc) auto

lemma Merge_source_without_bin:
  assumes "list \<noteq> []" "\<exists>h \<in> set list. fBins h = []"
  shows "TProfile2Poly_Merge this list = Inl NullPointer"
  using assms(1) by (simp add: TProfile2Poly_Merge_def InsertBinCounts_null[OF assms(2)])

lemma Merge_fails:
  assumes "list = [] \<or>
           ((\<forall>h \<in> set list. fBins h \<noteq> []) \<and>
            (\<exists>a \<in> set list. \<exists>b \<in> set list. length (fBins a) \<noteq> length (fBins b)))"
  shows "TProfile2Poly_Merge this list = Inr (- 1, this)"
proof (cases "list = []")
  case True
  then show ?thesis by (simp add: TProfile2Poly_Merge_def)
next
  case False
  with assms obtain a b where
    reg: "\<forall>h \<in> set list. fBins h \<noteq> []" and
    ab: "a \<in> set list" "b \<in> set list" "length (fBins a) \<noteq> length (fBins b)"
    by blast
  have "card (set (map (\<lambda>histo. int (length (fBins histo))) list)) \<noteq> 1"
    using card_bin_counts[OF _ ab(1,2)] ab(3) by blast
  with False show ?thesis
    unfolding TProfile2Poly_Merge_def Let_def InsertBinCounts_regions[OF reg] by simp
qed

lemma Merge_unfold:
  assumes "list \<noteq> []" "\<forall>h \<in> set list. length (fBins h) = n" "0 < n"
  shows "TProfile2Poly_Merge this list =
     (case MergeBins [0..int n - 1] list (fBins this) of
        Inl f \<Rightarrow> Inl f
      | Inr bins \<Rightarrow>
          (case SetContentToAverage
                  ((fold (\<lambda>histo this. MergeStats this histo) list this)\<lparr> fBins := bins \<rparr>) of
             Inl f \<Rightarrow> Inl f
           | Inr t \<Rightarrow> Inr (1, t)))"
proof -
  obtain h where h: "h \<in> set list" using assms(1) by (cases list) auto
  have reg: "\<forall>h \<in> set list. fBins h \<noteq> []" using assms(2,3) by auto
  have s: "InsertBinCounts list {} = Inr {int n}"
    using InsertBinCounts_regions[OF reg, of "{}"] bin_counts_singleton[OF h assms(2)] by simp
  have fb: "fBins (fold (\<lambda>histo this. MergeStats this histo) list this) = fBins this"
    using fold_MergeStats_fields[of list this] by simp
  show ?thesis
    unfolding TProfile2Poly_Merge_def Let_def s fb using assms(1) by simp
qed

lemma Merge_succeeds:
  assumes "list \<noteq> []" "\<forall>h \<in> set list. length (fBins h) = n" "n \<le> length (fBins this)"
          "0 < n"
  shows "\<exists>t. TProfile2Poly_Merge this list = Inr (1, t) \<and>
           fEntries t = fEntries this + sum_list (map fEntries list) \<and>
           fTsumw t = fTsumw this + sum_list (map fTsumw list) \<and>
           fTsumw2 t = fTsumw2 this + sum_list (map fTsumw2 list) \<and>
           fTsumwx t = fTsumwx this + sum_list (map fTsumwx list) \<and>
           fTsumwx2 t = fTsumwx2 this + sum_list (map fTsumwx2 list) \<and>
           fTsumwy t = fTsumwy this + sum_list (map fTsumwy list) \<and>
           fTsumwy2 t = fTsumwy2 this + sum_list (map fTsumwy2 list) \<and>
           fTsumwxy t = fTsumwxy this + sum_list (map fTsumwxy list) \<and>
           fTsumwz t = fTsumwz this + sum_list (map fTsumwz list) \<and>
           fTsumwz2 t = fTsumwz2 this + sum_list (map fTsumwz2 list) \<and>
           fNcells t = fNcells this \<and> fOverflow t = fOverflow this \<and>
           fOverflowBins t = fOverflowBins (fold (\<lambda>histo this. MergeStats this histo) list this) \<and>
           length (fBins t) = length (fBins this) \<and>
           (\<forall>i < length (fBins this). fBins t ! i =
              (let u = TProfile2PolyBin_Update
                         (if i < n then sums_added (fBins this ! i) (map (\<lambda>h. fBins h ! i) list)
                          else fBins this ! i)
               in SetContent u (fAverage u)))"
proof -
  let ?this1 = "fold (\<lambda>histo this. MergeStats this histo) list this"
  have d: "distinct [0..int n - 1]" by simp
  have r1: "\<forall>i \<in> set [0..int n - 1]. 0 \<le> i \<and> i < int (length (fBins this))"
    using assms(3) by auto
  have r2: "\<forall>i \<in> set [0..int n - 1]. \<forall>e \<in> set list. i < int (length (fBins e))"
    using assms(2) by auto
  from MergeBins_eq[OF d r1 r2] obtain bins where
    b: "MergeBins [0..int n - 1] list (fBins this) = Inr bins" "length bins = length (fBins this)"
       "\<forall>j < length (fBins this). bins ! j =
              (if int j \<in> set [0..int n - 1]
               then TProfile2PolyBin_Update (sums_added (fBins this ! j) (map (\<lambda>e. fBins e ! j) list))
               else fBins this ! j)"
    by blast
  let ?t = "?this1\<lparr> fBins := map (\<lambda>bin. let bin = TProfile2PolyBin_Update bin
                                         in SetContent bin (fAverage bin)) bins \<rparr>"
  have ne: "bins \<noteq> []" using b(2) assms(3,4) by auto
  have sc: "SetContentToAverage (?this1\<lparr> fBins := bins \<rparr>) = Inr ?t"
    using ne by (simp add: SetContentToAverage_def)
  have m: "TProfile2Poly_Merge this list = Inr (1, ?t)"
    by (simp add: Merge_unfold[OF assms(1,2,4)] b(1) sc)
  note f = fold_MergeStats_fields[of list this]
  have bins: "\<forall>i < length (fBins this). fBins ?t ! i =
              (let u = TProfile2PolyBin_Update
                         (if i < n then sums_added (fBins this ! i) (map (\<lambda>h. fBins h ! i) list)
                          else fBins this ! i)
               in SetContent u (fAverage u))"
    using b(2,3) by (auto simp: Let_def Update_idem)
  have "fEntries ?t = fEntries ?this1" "fTsumw ?t = fTsumw ?this1" "fTsumw2 ?t = fTsumw2 ?this1"
       "fTsumwx ?t = fTsumwx ?this1" "fTsumwx2 ?t = fTsumwx2 ?this1" "fTsumwy ?t = fTsumwy ?this1"
       "fTsumwy2 ?t = fTsumwy2 ?this1" "fTsumwxy ?t = fTsumwxy ?this1" "fTsumwz ?t = fTsumwz ?this1"
       "fTsumwz2 ?t = fTsumwz2 ?this1" "fNcells ?t = fNcells ?this1" "fOverflow ?t = fOverflow ?this1"
       "fOverflowBins ?t = fOverflowBins ?this1" "length (fBins ?t) = length (fBins this)"
    using b(2) by simp_all
  with f m bins show ?thesis by (intro exI[of _ ?t]) simp
qed

text \<open>
  The bin count of the target is not compared with that of the sources: a target with
  fewer bins makes \<^verbatim>\<open>fBins->At(i)\<close> null for the first position it lacks.
\<close>

lemma MergeBins_append:
  "MergeBins (xs @ ys) list bins =
     (case MergeBins xs list bins of Inl f \<Rightarrow> Inl f | Inr bins' \<Rightarrow> MergeBins ys list bins')"
proof (induction xs arbitrary: bins)
  case Nil
  then show ?case by simp
next
  case (Cons i xs)
  then show ?case by (simp split: option.splits sum.splits)
qed

lemma Merge_target_too_small:
  assumes "list \<noteq> []" "\<forall>h \<in> set list. length (fBins h) = n" "length (fBins this) < n"
  shows "TProfile2Poly_Merge this list = Inl NullPointer"
proof -
  let ?m = "int (length (fBins this))"
  have split: "[0..int n - 1] = [0..?m - 1] @ ?m # [?m + 1..int n - 1]"
    using assms(3) by (intro upto_split3) simp_all
  have d: "distinct [0..?m - 1]" by simp
  have r1: "\<forall>i \<in> set [0..?m - 1]. 0 \<le> i \<and> i < int (length (fBins this))" by auto
  have r2: "\<forall>i \<in> set [0..?m - 1]. \<forall>e \<in> set list. i < int (length (fBins e))"
    using assms(2,3) by auto
  from MergeBins_eq[OF d r1 r2] obtain bins where
    b: "MergeBins [0..?m - 1] list (fBins this) = Inr bins" "length bins = length (fBins this)"
    by blast
  have "MergeBins (?m # [?m + 1..int n - 1]) list bins = Inl NullPointer"
    using b(2) by (simp add: At_def)
  then have "MergeBins [0..int n - 1] list (fBins this) = Inl NullPointer"
    unfolding split MergeBins_append b(1) by simp
  moreover have "0 < n" using assms(3) by simp
  ultimately show ?thesis
    by (simp add: Merge_unfold[OF assms(1,2)])
qed

section \<open>The invariant of the global sum of weights\<close>

lemma inv_new: "overflow_invariant (TProfile2Poly_new base)"
  by (simp add: overflow_invariant_def overflow_ok_def TProfile2Poly_new_def kNOverflow_def TProfile2PolyBin_ctor_def
      sum_list_replicate)

lemma inv_add: "overflow_invariant s \<Longrightarrow> overflow_invariant (AddBin s base)"
  by (simp add: overflow_invariant_def overflow_ok_def AddBin_def CreateBin_def)

lemma inv_fill: "overflow_invariant s \<Longrightarrow> TProfile2Poly_Fill p s x y v w = Inr (r, s') \<Longrightarrow> overflow_invariant s'"
  using Fill_overflow_sum[of p s x y v w r s'] Fill_effect[of p s x y v w r s']
  by (simp add: overflow_invariant_def)

lemma inv_fold_MergeStats:
  "overflow_invariant this \<Longrightarrow> \<forall>h \<in> set list. overflow_invariant h \<Longrightarrow> overflow_invariant (fold (\<lambda>histo this. MergeStats this histo) list this)"
proof (induction list arbitrary: this)
  case Nil
  then show ?case by simp
next
  case (Cons h list)
  have "overflow_invariant (MergeStats this h)"
    using Cons.prems MergeStats_inv[of this h] by (simp add: overflow_invariant_def)
  with Cons show ?case by simp
qed

lemma inv_merge:
  assumes "overflow_invariant this" "\<forall>h \<in> set list. overflow_invariant h" "TProfile2Poly_Merge this list = Inr (r, t)"
  shows "overflow_invariant t"
proof -
  consider (empty) "list = []"
    | (null) "list \<noteq> []" "\<exists>h \<in> set list. fBins h = []"
    | (mismatch) "\<forall>h \<in> set list. fBins h \<noteq> []"
        "\<exists>a \<in> set list. \<exists>b \<in> set list. length (fBins a) \<noteq> length (fBins b)"
    | (same) "list \<noteq> []" "\<forall>h \<in> set list. fBins h \<noteq> []"
        "\<forall>a \<in> set list. \<forall>b \<in> set list. length (fBins a) = length (fBins b)"
    by blast
  then show ?thesis
  proof cases
    case empty
    then have "TProfile2Poly_Merge this list = Inr (- 1, this)"
      using Merge_fails[of list this] by blast
    with assms show ?thesis by simp
  next
    case null
    then have "TProfile2Poly_Merge this list = Inl NullPointer"
      by (rule Merge_source_without_bin)
    with assms(3) show ?thesis by simp
  next
    case mismatch
    then have "TProfile2Poly_Merge this list = Inr (- 1, this)"
      using Merge_fails[of list this] by blast
    with assms show ?thesis by simp
  next
    case same
    then obtain h where h: "h \<in> set list" by (cases list) auto
    with same have same': "\<forall>a \<in> set list. length (fBins a) = length (fBins h)" by blast
    have pos: "0 < length (fBins h)" using same(2) h by simp
    let ?this1 = "fold (\<lambda>histo this. MergeStats this histo) list this"
    from assms(3) obtain bins where
      "SetContentToAverage (?this1\<lparr> fBins := bins \<rparr>) = Inr t"
      unfolding Merge_unfold[OF same(1) same' pos]
      by (auto split: sum.splits)
    then have "fTsumw t = fTsumw ?this1" "fOverflowBins t = fOverflowBins ?this1"
      by (auto simp: SetContentToAverage_def split: if_splits)
    with inv_fold_MergeStats[OF assms(1,2)] show ?thesis
      by (simp add: overflow_invariant_def overflow_ok_def)
  qed
qed

lemma reachable_inv: "reachable s \<Longrightarrow> overflow_invariant s"
proof (induction rule: reachable.induct)
  case (r_new base)
  show ?case by (rule inv_new)
next
  case (r_add this base)
  then show ?case by (simp add: inv_add)
next
  case (r_fill this p x y v w r this')
  then show ?case using inv_fill by blast
next
  case (r_merge this list r this')
  then show ?case using inv_merge[of this list r this'] by (simp add: list_all_iff)
qed

section \<open>The scenario evaluated\<close>

lemmas bin_eval = TProfile2PolyBin_ctor_def TProfile2PolyBin_Fill_def TProfile2PolyBin_Update_def
  UpdateAverage_def UpdateError_def GetEffectiveEntries_def SetContent_def TProfile2PolyBin_Merge_def
  scenario_base_def scenario_bin0_def

lemmas fill_eval = TProfile2Poly_Fill_def GetOverflowRegionFromCoordinates_def OverflowIdxToArrayIdx_def
  FillOverflowBin_def FindCell_def UpdateGlobalStatistics_def Let_def scenario_partition_def
  scenario_wide_partition_def

lemma scenario_empty_value:
  "scenario_empty =
     \<lparr> fEntries = 0, fTsumw = 0, fTsumw2 = 0, fTsumwx = 0, fTsumwx2 = 0, fTsumwy = 0,
       fTsumwy2 = 0, fTsumwxy = 0, fTsumwz = 0, fTsumwz2 = 0, fNcells = 9,
       fOverflow = [0, 0, 0, 0, 0, 0, 0, 0, 0],
       fOverflowBins = [scenario_bin0, scenario_bin0, scenario_bin0, scenario_bin0, scenario_bin0,
                        scenario_bin0, scenario_bin0, scenario_bin0, scenario_bin0],
       fBins = [] \<rparr>"
  by (simp add: scenario_empty_def TProfile2Poly_new_def kNOverflow_def scenario_bin0_def eval_nat_numeral)

lemma scenario_aggregator_value:
  "scenario_aggregator =
     \<lparr> fEntries = 0, fTsumw = 0, fTsumw2 = 0, fTsumwx = 0, fTsumwx2 = 0, fTsumwy = 0,
       fTsumwy2 = 0, fTsumwxy = 0, fTsumwz = 0, fTsumwz2 = 0, fNcells = 10,
       fOverflow = [0, 0, 0, 0, 0, 0, 0, 0, 0],
       fOverflowBins = [scenario_bin0, scenario_bin0, scenario_bin0, scenario_bin0, scenario_bin0,
                        scenario_bin0, scenario_bin0, scenario_bin0, scenario_bin0],
       fBins = [scenario_bin0] \<rparr>"
  by (simp add: scenario_aggregator_def scenario_empty_value AddBin_def CreateBin_def scenario_bin0_def)

lemma Fill_interior:
  "TProfile2Poly_Fill scenario_partition scenario_aggregator 5 5 10 1 = Inr (- 5, scenario_filled)"
  by (simp add: scenario_filled_def scenario_aggregator_value fill_eval kNOverflow_def)

lemma Fill_low:
  "TProfile2Poly_Fill scenario_partition scenario_aggregator (- 1) (- 1) 5 1 = Inr (- 7, scenario_low)"
  by (simp add: scenario_low_def scenario_aggregator_value fill_eval kNOverflow_def)

lemma Fill_edge:
  "TProfile2Poly_Fill scenario_partition scenario_aggregator 0 5 10 1 = Inr (- 4, scenario_edge)"
  by (simp add: scenario_edge_def scenario_aggregator_value fill_eval kNOverflow_def)

lemma Fill_empty:
  "TProfile2Poly_Fill scenario_partition scenario_empty 5 5 10 1 = Inl OutOfBounds"
  by (simp add: scenario_empty_value fill_eval kNOverflow_def)

lemma scenario_filled_value:
  "scenario_filled =
     \<lparr> fEntries = 1, fTsumw = 1, fTsumw2 = 1, fTsumwx = 5, fTsumwx2 = 25, fTsumwy = 5,
       fTsumwy2 = 25, fTsumwxy = 25, fTsumwz = 10, fTsumwz2 = 100, fNcells = 10,
       fOverflow = [0, 0, 0, 0, 0, 0, 0, 0, 0],
       fOverflowBins = [scenario_bin0, scenario_bin0, scenario_bin0, scenario_bin0,
                        TProfile2PolyBin_Fill scenario_bin0 10 1,
                        scenario_bin0, scenario_bin0, scenario_bin0, scenario_bin0],
       fBins = [SetContent (TProfile2PolyBin_Fill scenario_bin0 10 1) 10] \<rparr>"
  by (simp add: scenario_filled_def scenario_aggregator_value fill_eval kNOverflow_def bin_eval)

lemma scenario_low_value:
  "scenario_low =
     \<lparr> fEntries = 0, fTsumw = 1, fTsumw2 = 1, fTsumwx = - 1, fTsumwx2 = 1, fTsumwy = - 1,
       fTsumwy2 = 1, fTsumwxy = 1, fTsumwz = 5, fTsumwz2 = 25, fNcells = 10,
       fOverflow = [0, 0, 0, 0, 0, 0, 0, 0, 0],
       fOverflowBins = [scenario_bin0, scenario_bin0, scenario_bin0, scenario_bin0, scenario_bin0,
                        scenario_bin0, TProfile2PolyBin_Fill scenario_bin0 5 1,
                        scenario_bin0, scenario_bin0],
       fBins = [scenario_bin0] \<rparr>"
  by (simp add: scenario_low_def scenario_aggregator_value fill_eval kNOverflow_def bin_eval)

lemma scenario_edge_sums:
  "map fSumw (fOverflowBins scenario_edge) = [0, 0, 0, 1, 0, 0, 0, 0, 0] \<and> fEntries scenario_edge = 1"
  by (simp add: scenario_edge_def scenario_aggregator_value fill_eval kNOverflow_def bin_eval)

lemma Merge_scenario:
  "TProfile2Poly_Merge scenario_aggregator [scenario_filled, scenario_filled] = Inr (1, scenario_merged)"
  by (simp add: scenario_merged_def TProfile2Poly_Merge_def scenario_filled_value scenario_aggregator_value
      MergeStats_def At_def kNOverflow_def Let_def eval_nat_numeral upto.simps SetContentToAverage_def)


lemma Merge_scenario_without_region:
  "fBins scenario_empty = [] \<and>
   TProfile2Poly_Merge scenario_filled [scenario_aggregator, scenario_empty] = Inl NullPointer"
proof -
  have e: "fBins scenario_empty = []" by (simp add: scenario_empty_value)
  then have "\<exists>h \<in> set [scenario_aggregator, scenario_empty]. fBins h = []" by simp
  then have "TProfile2Poly_Merge scenario_filled [scenario_aggregator, scenario_empty] = Inl NullPointer"
    by (intro Merge_source_without_bin) simp_all
  with e show ?thesis by simp
qed

lemma scenario_partition_ok: "partition_ok scenario_partition scenario_aggregator"
  by (simp add: partition_ok_def scenario_partition_def scenario_aggregator_value)

lemma scenario_has_bin: "kNOverflow < fNcells scenario_aggregator"
  by (simp add: scenario_aggregator_value kNOverflow_def)

lemma scenario_overflow_ok: "overflow_ok scenario_aggregator"
  by (simp add: overflow_ok_def scenario_aggregator_value kNOverflow_def)

lemma scenario_filled_overflow_ok: "overflow_ok scenario_filled"
  by (simp add: overflow_ok_def scenario_filled_value kNOverflow_def)

lemma reachable_scenario_aggregator: "reachable scenario_aggregator"
  unfolding scenario_aggregator_def scenario_empty_def by (intro r_add r_new)

lemma reachable_scenario_filled: "reachable scenario_filled"
  by (rule r_fill[OF reachable_scenario_aggregator Fill_interior])

lemma reachable_scenario_merged: "reachable scenario_merged"
  by (rule r_merge[OF reachable_scenario_aggregator _ Merge_scenario])
     (simp add: reachable_scenario_filled)

lemma scenario_bin_value:
  "scenario_bin = \<lparr> fContent = 0, fChanged = True, fSumw = 2, fSumvw = 30, fSumw2 = 2, fSumwv2 = 500,
       fAverage = 15, fError = 5, fErrorMode = kERRORSPREAD \<rparr>"
proof -
  have "sqrt 25 = 5" using real_sqrt_abs[of 5] by simp
  then show ?thesis by (simp add: scenario_bin_def bin_eval)
qed

lemma scenario_bin_cancelled_value:
  "scenario_bin_cancelled = \<lparr> fContent = 0, fChanged = True, fSumw = 0, fSumvw = 0, fSumw2 = 2,
       fSumwv2 = 0, fAverage = 3, fError = 0, fErrorMode = kERRORSPREAD \<rparr>"
  by (simp add: scenario_bin_cancelled_def bin_eval)

lemma scenario_mset: "mset [scenario_bin, scenario_bin_cancelled, scenario_bin_mean] =
     mset [scenario_bin_mean, scenario_bin, scenario_bin_cancelled]"
  by (simp add: add_mset_commute)

lemma scenario_fold_value: "moment_sums (fold (\<lambda>src dst. TProfile2PolyBin_Merge dst src)
      [scenario_bin, scenario_bin_cancelled, scenario_bin_mean] scenario_bin0) = (4, 60, 6, 1000)"
    by (simp add: moment_sums_def TProfile2PolyBin_Merge_def scenario_bin_value scenario_bin_mean_def
        scenario_bin_cancelled_value scenario_bin0_def TProfile2PolyBin_ctor_def)

section \<open>The claims\<close>

subsection \<open>C1: the value returned by \<^verbatim>\<open>Fill\<close>\<close>

text \<open>
  In the scenario the sample \<open>(5, 5)\<close> lies inside the domain \<open>[0,10] \<times> [0,10]\<close>, and
  \<^verbatim>\<open>Fill(5, 5, 10, 1)\<close> returns \<open>-5\<close>, the number of the centre of the grid, not 0.
\<close>

theorem C1_counterexample:
  "fXaxis_Xmin scenario_partition \<le> 5 \<and> 5 \<le> fXaxis_Xmax scenario_partition \<and>
   fYaxis_Xmin scenario_partition \<le> 5 \<and> 5 \<le> fYaxis_Xmax scenario_partition \<and>
   TProfile2Poly_Fill scenario_partition scenario_aggregator 5 5 10 1 = Inr (- 5, scenario_filled)"
  using Fill_interior by (simp add: scenario_partition_def)

text \<open>
  Claim C1, as the code has it. On an aggregator with a registered bin
  (\<open>fNcells > kNOverflow\<close>) and a well-formed partition, \<^verbatim>\<open>Fill\<close> returns the value of
  \<^verbatim>\<open>GetOverflowRegionFromCoordinates\<close>, a number from \<open>-9\<close> to \<open>-1\<close>. It is \<open>-5\<close> for the
  samples with \<open>xmin < x \<le> xmax\<close> and \<open>ymin < y \<le> ymax\<close>, and it differs from \<open>-5\<close> for
  every sample outside \<open>[xmin, xmax] \<times> [ymin, ymax]\<close>.
\<close>

theorem C1_fill_return:
  assumes "partition_ok p this" "kNOverflow < fNcells this"
  shows "\<exists>r this'. TProfile2Poly_Fill p this x y v w = Inr (r, this') \<and>
           r = GetOverflowRegionFromCoordinates p this x y \<and> - 9 \<le> r \<and> r \<le> - 1 \<and>
           (fXaxis_Xmin p < x \<and> x \<le> fXaxis_Xmax p \<and> fYaxis_Xmin p < y \<and> y \<le> fYaxis_Xmax p
              \<longrightarrow> r = - 5) \<and>
           (x < fXaxis_Xmin p \<or> fXaxis_Xmax p < x \<or> y < fYaxis_Xmin p \<or> fYaxis_Xmax p < y
              \<longrightarrow> r \<noteq> - 5)"
proof -
  let ?r = "GetOverflowRegionFromCoordinates p this x y"
  from Fill_returns[OF assms] obtain this' where
    f: "TProfile2Poly_Fill p this x y v w = Inr (?r, this')" by blast
  have c: "?r = - 5 \<longleftrightarrow>
      fXaxis_Xmin p < x \<and> x \<le> fXaxis_Xmax p \<and> fYaxis_Xmin p < y \<and> y \<le> fYaxis_Xmax p"
    by (rule region_centre_iff[OF assms(2)])
  then have o: "x < fXaxis_Xmin p \<or> fXaxis_Xmax p < x \<or> y < fYaxis_Xmin p \<or> fYaxis_Xmax p < y
      \<longrightarrow> ?r \<noteq> - 5"
    by auto
  from f c o region_range[OF assms(2), of p x y] show ?thesis by blast
qed

theorem C1_fill_return_witness:
  "partition_ok scenario_partition scenario_aggregator \<and> kNOverflow < fNcells scenario_aggregator \<and>
   TProfile2Poly_Fill scenario_partition scenario_aggregator 5 5 10 1 = Inr (- 5, scenario_filled) \<and>
   TProfile2Poly_Fill scenario_partition scenario_aggregator (- 1) (- 1) 5 1 = Inr (- 7, scenario_low)"
proof -
  from C1_fill_return[OF scenario_partition_ok scenario_has_bin, of 5 5 10 1]
  obtain r this' where
    a: "TProfile2Poly_Fill scenario_partition scenario_aggregator 5 5 10 1 = Inr (r, this')"
       "fXaxis_Xmin scenario_partition < 5 \<and> 5 \<le> fXaxis_Xmax scenario_partition \<and>
          fYaxis_Xmin scenario_partition < 5 \<and> 5 \<le> fYaxis_Xmax scenario_partition \<longrightarrow> r = - 5"
    by blast
  from a(2) have "r = - 5" by (simp add: scenario_partition_def)
  with a(1) have i: "TProfile2Poly_Fill scenario_partition scenario_aggregator 5 5 10 1 = Inr (- 5, scenario_filled)"
    by (simp add: scenario_filled_def)
  from C1_fill_return[OF scenario_partition_ok scenario_has_bin, of "- 1" "- 1" 5 1]
  obtain r' this'' where
    b: "TProfile2Poly_Fill scenario_partition scenario_aggregator (- 1) (- 1) 5 1 = Inr (r', this'')"
       "r' = GetOverflowRegionFromCoordinates scenario_partition scenario_aggregator (- 1) (- 1)"
    by blast
  from b(2) have "r' = - 7"
    by (simp add: GetOverflowRegionFromCoordinates_def scenario_partition_def scenario_aggregator_value kNOverflow_def)
  with b(1) have "TProfile2Poly_Fill scenario_partition scenario_aggregator (- 1) (- 1) 5 1 = Inr (- 7, scenario_low)"
    by (simp add: scenario_low_def)
  with i scenario_partition_ok scenario_has_bin show ?thesis by simp
qed

subsection \<open>C2: the global sum of weights and the accumulators\<close>

text \<open>
  After the single call \<^verbatim>\<open>Fill(5, 5, 10, 1)\<close> of the scenario the global sum of weights is
  1, and the sum of \<open>sumWeight\<close> over all accumulators is 2: the sample is counted in its
  interior bin and again in the centre overflow accumulator.
\<close>

theorem C2_counterexample:
  "reachable scenario_filled \<and> fTsumw scenario_filled = 1 \<and> all_accumulators_sumw scenario_filled = 2"
  using reachable_scenario_filled
  by (simp add: scenario_filled_value all_accumulators_sumw_def bin_eval)

text \<open>
  Claim C2, as the code has it. After any sequence of registrations, calls of \<^verbatim>\<open>Fill\<close>
  on aggregators with a registered bin and calls of \<^verbatim>\<open>Merge\<close>, on freshly constructed
  aggregators, the global sum of weights equals the sum of \<open>sumWeight\<close> over the nine
  overflow accumulators; the interior bins are not part of the sum.
\<close>

theorem C2_global_sumw:
  assumes "reachable this"
  shows "length (fOverflowBins this) = 9 \<and> fTsumw this = overflow_sumw this"
  using reachable_inv[OF assms] by (simp add: overflow_invariant_def overflow_ok_def overflow_sumw_def kNOverflow_def)

theorem C2_global_sumw_witness:
  "reachable scenario_merged \<and> fTsumw scenario_merged = 2 \<and> overflow_sumw scenario_merged = 2"
proof -
  have "fTsumw scenario_merged = 2"
    using Merge_succeeds[of "[scenario_filled, scenario_filled]" 1 scenario_aggregator] Merge_scenario
    by (simp add: scenario_filled_value scenario_aggregator_value)
  with C2_global_sumw[OF reachable_scenario_merged] reachable_scenario_merged show ?thesis by simp
qed

subsection \<open>C3: \<^verbatim>\<open>Update\<close> of an accumulator\<close>

text \<open>
  An accumulator filled with the value 3 of weight 1 and of weight \<open>-1\<close> has
  \<open>sumWeight = 0\<close> and keeps the average 3. \<^verbatim>\<open>Update\<close> in the spread mode sets its error to
  0, where the formula \<open>sqrt(variance)\<close> of the specification divides by \<open>sumWeight = 0\<close>:
  with the total operations of HOL the formula gives \<open>-3\<close>, and in no reading of the
  quotient does it give the error 0 of the code.
\<close>

theorem C3_counterexample:
  "fErrorMode scenario_bin_cancelled = kERRORSPREAD \<and> fSumw scenario_bin_cancelled = 0 \<and>
   fError (TProfile2PolyBin_Update scenario_bin_cancelled) = 0 \<and>
   sqrt (spec_variance (TProfile2PolyBin_Update scenario_bin_cancelled)) = - 3 \<and>
   fError (TProfile2PolyBin_Update scenario_bin_cancelled) \<noteq>
     sqrt (spec_variance (TProfile2PolyBin_Update scenario_bin_cancelled))"
proof -
  have "sqrt 9 = 3" using real_sqrt_abs[of 3] by simp
  then show ?thesis
    by (simp add: scenario_bin_cancelled_value spec_variance_def TProfile2PolyBin_Update_def
        UpdateAverage_def UpdateError_def real_sqrt_minus)
qed

text \<open>
  Claim C3, as the code has it. After \<^verbatim>\<open>Update\<close> the average is
  \<open>sumWeightedValue / sumWeight\<close> when \<open>sumWeight \<noteq> 0\<close> and unchanged otherwise. When
  \<open>sumWeight \<noteq> 0\<close> the error is \<open>sqrt(variance)\<close> in the spread mode and
  \<open>sqrt(variance) / sqrt(effectiveEntries)\<close> in every other mode, with the variance of the
  new average. When \<open>sumWeight = 0\<close> the numerator is 0 instead of \<open>sqrt(variance)\<close>: the
  error is 0 in the spread mode and \<open>0 / sqrt(effectiveEntries)\<close> in every other mode.
\<close>

theorem C3_update:
  "fAverage (TProfile2PolyBin_Update b) = (if fSumw b \<noteq> 0 then fSumvw b / fSumw b else fAverage b) \<and>
   (fSumw b \<noteq> 0 \<longrightarrow> fErrorMode b = kERRORSPREAD \<longrightarrow>
      fError (TProfile2PolyBin_Update b) = sqrt (spec_variance (TProfile2PolyBin_Update b))) \<and>
   (fSumw b \<noteq> 0 \<longrightarrow> fErrorMode b \<noteq> kERRORSPREAD \<longrightarrow>
      fError (TProfile2PolyBin_Update b) =
        sqrt (spec_variance (TProfile2PolyBin_Update b)) /
        sqrt (if fSumw2 b = 0 then 0 else (fSumw b)\<^sup>2 / fSumw2 b)) \<and>
   (fSumw b = 0 \<longrightarrow> fErrorMode b = kERRORSPREAD \<longrightarrow> fError (TProfile2PolyBin_Update b) = 0) \<and>
   (fSumw b = 0 \<longrightarrow> fErrorMode b \<noteq> kERRORSPREAD \<longrightarrow>
      fError (TProfile2PolyBin_Update b) = 0 / sqrt (if fSumw2 b = 0 then 0 else (fSumw b)\<^sup>2 / fSumw2 b))"
  by (cases "fErrorMode b")
     (simp_all add: TProfile2PolyBin_Update_def UpdateError_def UpdateAverage_def spec_variance_def
        GetEffectiveEntries_def power2_eq_square)

theorem C3_update_witness:
  "fSumw scenario_bin \<noteq> 0 \<and> fErrorMode scenario_bin = kERRORSPREAD \<and>
   fAverage (TProfile2PolyBin_Update scenario_bin) = 15 \<and>
   fError (TProfile2PolyBin_Update scenario_bin) = sqrt (spec_variance (TProfile2PolyBin_Update scenario_bin)) \<and>
   fSumw scenario_bin_mean \<noteq> 0 \<and> fErrorMode scenario_bin_mean \<noteq> kERRORSPREAD \<and>
   fError (TProfile2PolyBin_Update scenario_bin_mean) =
     sqrt (spec_variance (TProfile2PolyBin_Update scenario_bin_mean)) / sqrt 2 \<and>
   fSumw scenario_bin_cancelled = 0 \<and> fErrorMode scenario_bin_cancelled = kERRORSPREAD \<and>
   fAverage (TProfile2PolyBin_Update scenario_bin_cancelled) = 3 \<and>
   fError (TProfile2PolyBin_Update scenario_bin_cancelled) = 0"
  using C3_update[of scenario_bin] C3_update[of scenario_bin_mean] C3_update[of scenario_bin_cancelled]
  by (simp add: scenario_bin_value scenario_bin_mean_def scenario_bin_cancelled_value)

subsection \<open>C4: the failures of \<^verbatim>\<open>Merge\<close>\<close>



subsection \<open>C5: the successful \<^verbatim>\<open>Merge\<close>\<close>

text \<open>
  Claim C5. With a non-empty list of sources of the same bin count \<open>n > 0\<close>, and a target
  of at least \<open>n\<close> bins, \<^verbatim>\<open>Merge\<close> returns 1. Entries and the nine global sums of the
  target grow by the sums over the sources; overflow accumulator \<open>k\<close> receives the moment
  sums of accumulator \<open>k\<close> of every source; interior bin \<open>i < n\<close> receives the moment sums
  of bin \<open>i\<close> of every source; every interior bin of the target is then updated and its
  display value is its average.
\<close>

theorem C5_merge_success:
  assumes "list \<noteq> []" "\<forall>h \<in> set list. length (fBins h) = n" "0 < n"
          "n \<le> length (fBins this)" "overflow_ok this" "\<forall>h \<in> set list. overflow_ok h"
  shows "\<exists>t. TProfile2Poly_Merge this list = Inr (1, t) \<and>
           fEntries t = fEntries this + sum_list (map fEntries list) \<and>
           fTsumw t = fTsumw this + sum_list (map fTsumw list) \<and>
           fTsumw2 t = fTsumw2 this + sum_list (map fTsumw2 list) \<and>
           fTsumwx t = fTsumwx this + sum_list (map fTsumwx list) \<and>
           fTsumwx2 t = fTsumwx2 this + sum_list (map fTsumwx2 list) \<and>
           fTsumwy t = fTsumwy this + sum_list (map fTsumwy list) \<and>
           fTsumwy2 t = fTsumwy2 this + sum_list (map fTsumwy2 list) \<and>
           fTsumwxy t = fTsumwxy this + sum_list (map fTsumwxy list) \<and>
           fTsumwz t = fTsumwz this + sum_list (map fTsumwz list) \<and>
           fTsumwz2 t = fTsumwz2 this + sum_list (map fTsumwz2 list) \<and>
           length (fOverflowBins t) = 9 \<and>
           (\<forall>k < 9. fOverflowBins t ! k =
              sums_added (fOverflowBins this ! k) (map (\<lambda>h. fOverflowBins h ! k) list)) \<and>
           length (fBins t) = length (fBins this) \<and>
           (\<forall>i < length (fBins this). fBins t ! i =
              (let u = TProfile2PolyBin_Update
                         (if i < n then sums_added (fBins this ! i) (map (\<lambda>h. fBins h ! i) list)
                          else fBins this ! i)
               in SetContent u (fAverage u)))"
proof -
  from Merge_succeeds[OF assms(1,2,4,3)] obtain t where
    t: "TProfile2Poly_Merge this list = Inr (1, t)"
       "fEntries t = fEntries this + sum_list (map fEntries list)"
       "fTsumw t = fTsumw this + sum_list (map fTsumw list)"
       "fTsumw2 t = fTsumw2 this + sum_list (map fTsumw2 list)"
       "fTsumwx t = fTsumwx this + sum_list (map fTsumwx list)"
       "fTsumwx2 t = fTsumwx2 this + sum_list (map fTsumwx2 list)"
       "fTsumwy t = fTsumwy this + sum_list (map fTsumwy list)"
       "fTsumwy2 t = fTsumwy2 this + sum_list (map fTsumwy2 list)"
       "fTsumwxy t = fTsumwxy this + sum_list (map fTsumwxy list)"
       "fTsumwz t = fTsumwz this + sum_list (map fTsumwz list)"
       "fTsumwz2 t = fTsumwz2 this + sum_list (map fTsumwz2 list)"
       "fOverflowBins t = fOverflowBins (fold (\<lambda>histo this. MergeStats this histo) list this)"
       "length (fBins t) = length (fBins this)"
       "\<forall>i < length (fBins this). fBins t ! i =
              (let u = TProfile2PolyBin_Update
                         (if i < n then sums_added (fBins this ! i) (map (\<lambda>h. fBins h ! i) list)
                          else fBins this ! i)
               in SetContent u (fAverage u))"
    by blast
  note o = fold_MergeStats_overflow[OF assms(5,6)]
  have l: "length (fOverflowBins this) = 9" using assms(5) by (simp add: overflow_ok_def kNOverflow_def)
  have "length (fOverflowBins t) = 9"
    using o t(12) by (simp add: overflow_ok_def kNOverflow_def)
  moreover have "\<forall>k < 9. fOverflowBins t ! k =
              sums_added (fOverflowBins this ! k) (map (\<lambda>h. fOverflowBins h ! k) list)"
    using o t(12) l by simp
  ultimately show ?thesis using t(1-11,13,14) by (intro exI[of _ t] conjI)
qed

theorem C5_merge_success_witness:
  "[scenario_filled, scenario_filled] \<noteq> [] \<and>
   length (fBins scenario_filled) = 1 \<and> (0::nat) < 1 \<and>
   1 \<le> length (fBins scenario_aggregator) \<and> overflow_ok scenario_aggregator \<and>
   overflow_ok scenario_filled \<and>
   TProfile2Poly_Merge scenario_aggregator [scenario_filled, scenario_filled] = Inr (1, scenario_merged) \<and>
   fEntries scenario_merged = 2 \<and> fTsumw scenario_merged = 2 \<and> fTsumwz scenario_merged = 20 \<and>
   fSumw (fOverflowBins scenario_merged ! 4) = 2 \<and>
   fSumw (fBins scenario_merged ! 0) = 2 \<and> fAverage (fBins scenario_merged ! 0) = 10 \<and>
   fContent (fBins scenario_merged ! 0) = 10"
proof -
  have h1: "[scenario_filled, scenario_filled] \<noteq> []" by simp
  have h2: "\<forall>h \<in> set [scenario_filled, scenario_filled]. length (fBins h) = 1"
    by (simp add: scenario_filled_value)
  have h3: "1 \<le> length (fBins scenario_aggregator)" by (simp add: scenario_aggregator_value)
  have h5: "\<forall>h \<in> set [scenario_filled, scenario_filled]. overflow_ok h"
    by (simp add: scenario_filled_overflow_ok)
  have h0: "(0::nat) < 1" by simp
  from C5_merge_success[OF h1 h2 h0 h3 scenario_overflow_ok h5] obtain t where
    t: "TProfile2Poly_Merge scenario_aggregator [scenario_filled, scenario_filled] = Inr (1, t)"
       "fEntries t = fEntries scenario_aggregator + sum_list (map fEntries [scenario_filled, scenario_filled])"
       "fTsumw t = fTsumw scenario_aggregator + sum_list (map fTsumw [scenario_filled, scenario_filled])"
       "fTsumwz t = fTsumwz scenario_aggregator + sum_list (map fTsumwz [scenario_filled, scenario_filled])"
       "\<forall>k < 9. fOverflowBins t ! k =
              sums_added (fOverflowBins scenario_aggregator ! k)
                (map (\<lambda>h. fOverflowBins h ! k) [scenario_filled, scenario_filled])"
       "\<forall>i < length (fBins scenario_aggregator). fBins t ! i =
              (let u = TProfile2PolyBin_Update
                         (if i < 1 then sums_added (fBins scenario_aggregator ! i)
                                          (map (\<lambda>h. fBins h ! i) [scenario_filled, scenario_filled])
                          else fBins scenario_aggregator ! i)
               in SetContent u (fAverage u))"
    by blast
  from t(1) have m: "scenario_merged = t" by (simp add: scenario_merged_def)
  have "fEntries t = 2" "fTsumw t = 2" "fTsumwz t = 20"
    using t(2,3,4) by (simp_all add: scenario_aggregator_value scenario_filled_value)
  moreover have "fSumw (fOverflowBins t ! 4) = 2"
    using t(5)[rule_format, of 4]
    by (simp add: scenario_aggregator_value scenario_filled_value sums_added_def bin_eval)
  moreover have "fSumw (fBins t ! 0) = 2 \<and> fAverage (fBins t ! 0) = 10 \<and> fContent (fBins t ! 0) = 10"
    using t(6)[rule_format, of 0]
    by (simp add: scenario_aggregator_value scenario_filled_value sums_added_def bin_eval)
  moreover have "length (fBins scenario_filled) = 1" by (simp add: scenario_filled_value)
  ultimately show ?thesis
    using h0 h1 h3 scenario_filled_overflow_ok scenario_overflow_ok t(1) unfolding m
    by (intro conjI) simp_all
qed

subsection \<open>C6: \<^verbatim>\<open>Fill\<close> of an accumulator\<close>

text \<open>
  A new accumulator has average 0. After \<^verbatim>\<open>Fill(10, 1)\<close> alone its average is 10, and
  after \<^verbatim>\<open>Fill(20, 1)\<close> its error is 5: \<^verbatim>\<open>Fill\<close> ends with a call of \<^verbatim>\<open>Update\<close>.
\<close>

theorem C6_counterexample:
  "fAverage scenario_bin0 = 0 \<and> fAverage (TProfile2PolyBin_Fill scenario_bin0 10 1) = 10 \<and>
   fError (TProfile2PolyBin_Fill scenario_bin0 10 1) = 0 \<and>
   fError (TProfile2PolyBin_Fill (TProfile2PolyBin_Fill scenario_bin0 10 1) 20 1) = 5"
  using scenario_bin_value by (simp add: scenario_bin_def) (simp add: bin_eval)

text \<open>
  Claim C6, as the code has it. \<^verbatim>\<open>Fill(value, weight)\<close> adds \<open>w\<close>, \<open>v\<sqdot>w\<close>, \<open>w\<sqdot>w\<close> and
  \<open>w\<sqdot>v\<sqdot>v\<close> to the four moment sums, keeps the error mode and the display value, and
  recomputes average and error itself: the average is that of the new sums, and a
  following \<^verbatim>\<open>Update\<close> changes nothing.
\<close>

theorem C6_bin_fill:
  "fSumw (TProfile2PolyBin_Fill b v w) = fSumw b + w \<and>
   fSumvw (TProfile2PolyBin_Fill b v w) = fSumvw b + v * w \<and>
   fSumw2 (TProfile2PolyBin_Fill b v w) = fSumw2 b + w * w \<and>
   fSumwv2 (TProfile2PolyBin_Fill b v w) = fSumwv2 b + w * v * v \<and>
   fErrorMode (TProfile2PolyBin_Fill b v w) = fErrorMode b \<and>
   fContent (TProfile2PolyBin_Fill b v w) = fContent b \<and>
   fAverage (TProfile2PolyBin_Fill b v w) =
     (if fSumw b + w \<noteq> 0 then (fSumvw b + v * w) / (fSumw b + w) else fAverage b) \<and>
   TProfile2PolyBin_Update (TProfile2PolyBin_Fill b v w) = TProfile2PolyBin_Fill b v w"
proof -
  have "fAverage (TProfile2PolyBin_Fill b v w) =
     (if fSumw b + w \<noteq> 0 then (fSumvw b + v * w) / (fSumw b + w) else fAverage b)"
    by (cases "fErrorMode b")
       (simp_all add: TProfile2PolyBin_Fill_def TProfile2PolyBin_Update_def UpdateError_def UpdateAverage_def)
  moreover have "TProfile2PolyBin_Update (TProfile2PolyBin_Fill b v w) = TProfile2PolyBin_Fill b v w"
    unfolding TProfile2PolyBin_Fill_def by (rule Update_idem)
  moreover have "fErrorMode (TProfile2PolyBin_Fill b v w) = fErrorMode b"
     "fContent (TProfile2PolyBin_Fill b v w) = fContent b"
    by (simp_all add: TProfile2PolyBin_Fill_def)
  ultimately show ?thesis by simp
qed

subsection \<open>C7: \<^verbatim>\<open>Merge\<close> of accumulators\<close>

text \<open>
  Claim C7. \<^verbatim>\<open>Merge(other)\<close> adds the four moment sums of \<open>other\<close> and leaves average,
  error, error mode, display value and redraw flag as they were. The moment sums of a
  merge do not depend on the order of the two accumulators, merging is associative, and
  merging a collection into an accumulator gives the same accumulator for every order of
  the collection. \<^verbatim>\<open>TProfile2PolyBin\<close> has no member for an entry count in the source file.
\<close>

theorem C7_bin_merge:
  "moment_sums (TProfile2PolyBin_Merge this other) =
     (fSumw this + fSumw other, fSumvw this + fSumvw other,
      fSumw2 this + fSumw2 other, fSumwv2 this + fSumwv2 other) \<and>
   fAverage (TProfile2PolyBin_Merge this other) = fAverage this \<and>
   fError (TProfile2PolyBin_Merge this other) = fError this \<and>
   fErrorMode (TProfile2PolyBin_Merge this other) = fErrorMode this \<and>
   fContent (TProfile2PolyBin_Merge this other) = fContent this \<and>
   fChanged (TProfile2PolyBin_Merge this other) = fChanged this \<and>
   moment_sums (TProfile2PolyBin_Merge this other) = moment_sums (TProfile2PolyBin_Merge other this) \<and>
   TProfile2PolyBin_Merge (TProfile2PolyBin_Merge this other) third =
     TProfile2PolyBin_Merge this (TProfile2PolyBin_Merge other third) \<and>
   (mset xs = mset ys \<longrightarrow>
      fold (\<lambda>src dst. TProfile2PolyBin_Merge dst src) xs this =
      fold (\<lambda>src dst. TProfile2PolyBin_Merge dst src) ys this)"
proof -
  have p: "mset xs = mset ys \<longrightarrow>
      fold (\<lambda>src dst. TProfile2PolyBin_Merge dst src) xs this =
      fold (\<lambda>src dst. TProfile2PolyBin_Merge dst src) ys this"
    using sums_added_mset[of xs ys this] by (simp add: fold_Merge_sums_added)
  have s: "moment_sums (TProfile2PolyBin_Merge this other) =
     (fSumw this + fSumw other, fSumvw this + fSumvw other,
      fSumw2 this + fSumw2 other, fSumwv2 this + fSumwv2 other)"
    by (simp add: moment_sums_def TProfile2PolyBin_Merge_def)
  have f: "fAverage (TProfile2PolyBin_Merge this other) = fAverage this"
    "fError (TProfile2PolyBin_Merge this other) = fError this"
    "fErrorMode (TProfile2PolyBin_Merge this other) = fErrorMode this"
    "fContent (TProfile2PolyBin_Merge this other) = fContent this"
    "fChanged (TProfile2PolyBin_Merge this other) = fChanged this"
    by (simp_all add: TProfile2PolyBin_Merge_def)
  show ?thesis
    by (intro conjI s f Merge_comm_sums Merge_assoc p)
qed

theorem C7_bin_merge_witness:
  "mset [scenario_bin, scenario_bin_cancelled, scenario_bin_mean] =
     mset [scenario_bin_mean, scenario_bin, scenario_bin_cancelled] \<and>
   fold (\<lambda>src dst. TProfile2PolyBin_Merge dst src)
      [scenario_bin, scenario_bin_cancelled, scenario_bin_mean] scenario_bin0 =
   fold (\<lambda>src dst. TProfile2PolyBin_Merge dst src)
      [scenario_bin_mean, scenario_bin, scenario_bin_cancelled] scenario_bin0 \<and>
   moment_sums (fold (\<lambda>src dst. TProfile2PolyBin_Merge dst src)
      [scenario_bin, scenario_bin_cancelled, scenario_bin_mean] scenario_bin0) = (4, 60, 6, 1000)"
proof -
  note c = C7_bin_merge[of scenario_bin0 scenario_bin0 scenario_bin0
      "[scenario_bin, scenario_bin_cancelled, scenario_bin_mean]"
      "[scenario_bin_mean, scenario_bin, scenario_bin_cancelled]",
      THEN conjunct2, THEN conjunct2, THEN conjunct2, THEN conjunct2,
      THEN conjunct2, THEN conjunct2, THEN conjunct2, THEN conjunct2]
  from c[THEN mp, OF scenario_mset] scenario_mset scenario_fold_value
  show ?thesis by (intro conjI)
qed

subsection \<open>C8: the accessors by bin number\<close>

text \<open>
  Five accessors read interior bin \<open>b - 1\<close> for \<open>0 < b \<le> N\<close>, overflow accumulator
  \<open>-b - 1\<close> for \<open>-9 \<le> b < 0\<close>, and return 0 otherwise. \<^verbatim>\<open>GetBinEffectiveEntries\<close> does the
  same for the interior bins and outside the range, but for \<open>-9 \<le> b < 0\<close> it returns the
  plain overflow content \<open>fOverflow[-b - 1]\<close> of the base class.
\<close>

lemma accessors_read_bins:
  "(0 < b \<and> b \<le> int (length (fBins this)) \<longrightarrow>
      GetBinEntries g this b = g (fBins this ! nat (b - 1)) \<and>
      GetBinEntriesW2 g this b = g (fBins this ! nat (b - 1)) \<and>
      GetBinEntriesVW g this b = g (fBins this ! nat (b - 1)) \<and>
      GetBinEntriesWV2 g this b = g (fBins this ! nat (b - 1)) \<and>
      GetBinError g this b = g (fBins this ! nat (b - 1)) \<and>
      GetBinEffectiveEntries this b = GetEffectiveEntries (fBins this ! nat (b - 1))) \<and>
   (- 9 \<le> b \<and> b < 0 \<longrightarrow>
      GetBinEntries g this b = g (fOverflowBins this ! nat (- b - 1)) \<and>
      GetBinEntriesW2 g this b = g (fOverflowBins this ! nat (- b - 1)) \<and>
      GetBinEntriesVW g this b = g (fOverflowBins this ! nat (- b - 1)) \<and>
      GetBinEntriesWV2 g this b = g (fOverflowBins this ! nat (- b - 1)) \<and>
      GetBinError g this b = g (fOverflowBins this ! nat (- b - 1)) \<and>
      GetBinEffectiveEntries this b = fOverflow this ! nat (- b - 1)) \<and>
   (b = 0 \<or> int (length (fBins this)) < b \<or> b < - 9 \<longrightarrow>
      GetBinEntries g this b = 0 \<and> GetBinEntriesW2 g this b = 0 \<and> GetBinEntriesVW g this b = 0 \<and>
      GetBinEntriesWV2 g this b = 0 \<and> GetBinError g this b = 0 \<and>
      GetBinEffectiveEntries this b = 0)"
  by (auto simp: GetBinEntries_def GetBinEntriesW2_def GetBinEntriesVW_def GetBinEntriesWV2_def
      GetBinError_def GetBinEffectiveEntries_def GetNumberOfBins_def kNOverflow_def)

text \<open>
  Claim C8 at the scenario after \<^verbatim>\<open>Fill(-1, -1, 5, 1)\<close>: overflow accumulator 6 has the
  effective entries 1, and \<^verbatim>\<open>GetBinEffectiveEntries(-7)\<close> returns 0, the content of
  \<open>fOverflow[6]\<close>.
\<close>

theorem C8_effective_entries_overflow:
  "TProfile2Poly_Fill scenario_partition scenario_aggregator (- 1) (- 1) 5 1 = Inr (- 7, scenario_low) \<and>
   GetBinEffectiveEntries scenario_low (- 7) = 0 \<and>
   fOverflow scenario_low ! 6 = 0 \<and>
   GetEffectiveEntries (fOverflowBins scenario_low ! 6) = 1"
  using Fill_low
  by (simp add: scenario_low_value GetBinEffectiveEntries_def GetNumberOfBins_def
      kNOverflow_def bin_eval)

subsection \<open>C9: the classification of a sample\<close>

text \<open>
  In the scenario the sample \<open>(0, 5)\<close> has \<open>xmin \<le> x \<le> xmax\<close>, and \<^verbatim>\<open>Fill(0, 5, 10, 1)\<close>
  returns \<open>-4\<close> and fills overflow accumulator 3, the left column of the middle row.
\<close>

theorem C9_counterexample:
  "fXaxis_Xmin scenario_partition \<le> 0 \<and> 0 \<le> fXaxis_Xmax scenario_partition \<and>
   TProfile2Poly_Fill scenario_partition scenario_aggregator 0 5 10 1 = Inr (- 4, scenario_edge) \<and>
   map fSumw (fOverflowBins scenario_edge) = [0, 0, 0, 1, 0, 0, 0, 0, 0]"
  using Fill_edge scenario_edge_sums by (simp add: scenario_partition_def)

text \<open>
  The interior lookup does not depend on the classification: with a region that reaches
  beyond the domain, the sample \<open>(-1, -1)\<close> is classified bottom-left and counted in
  \<^verbatim>\<open>fEntries\<close> as well.
\<close>

lemma Fill_entries_beyond_domain:
  "map_sum id (\<lambda>(r, this). (r, fEntries this))
     (TProfile2Poly_Fill scenario_wide_partition scenario_aggregator (- 1) (- 1) 5 1) = Inr (- 7, 1)"
  by (simp add: scenario_aggregator_value fill_eval kNOverflow_def bin_eval)

text \<open>
  Claim C9, as the code has it. On an aggregator with a registered bin, a well-formed
  partition and axes with \<open>xmin \<le> xmax\<close>, \<open>ymin \<le> ymax\<close>, every call of \<^verbatim>\<open>Fill\<close> returns
  and adds the weight to the global sum of weights. A sample with \<open>x < xmin\<close> and
  \<open>y < ymin\<close> gets the number \<open>-7\<close>; its weight goes to overflow accumulator 6, the
  bottom-left one, and the other overflow accumulators stay as they are. \<^verbatim>\<open>fEntries\<close> and
  the interior bins are unchanged when no bin of the cell of the sample contains it. A
  sample with \<open>xmin < x \<le> xmax\<close> gets a number of the middle column, \<open>-2\<close>, \<open>-5\<close> or
  \<open>-8\<close>.
\<close>

theorem C9_classification:
  assumes "partition_ok p this" "kNOverflow < fNcells this" "overflow_ok this"
          "fXaxis_Xmin p \<le> fXaxis_Xmax p" "fYaxis_Xmin p \<le> fYaxis_Xmax p"
  shows "\<exists>r this'. TProfile2Poly_Fill p this x y v w = Inr (r, this') \<and>
           fTsumw this' = fTsumw this + w \<and>
           (x < fXaxis_Xmin p \<and> y < fYaxis_Xmin p \<longrightarrow>
              r = - 7 \<and> fSumw (fOverflowBins this' ! 6) = fSumw (fOverflowBins this ! 6) + w \<and>
              (\<forall>k < 9. k \<noteq> 6 \<longrightarrow> fOverflowBins this' ! k = fOverflowBins this ! k)) \<and>
           (list_all (\<lambda>i. \<not> IsInside p i x y) (fCells p ! nat (FindCell p x y)) \<longrightarrow>
              fEntries this' = fEntries this \<and> fBins this' = fBins this) \<and>
           (fXaxis_Xmin p < x \<and> x \<le> fXaxis_Xmax p \<longrightarrow> r = - 2 \<or> r = - 5 \<or> r = - 8)"
proof -
  let ?r = "GetOverflowRegionFromCoordinates p this x y"
  from Fill_returns[OF assms(1,2)] obtain this' where
    f: "TProfile2Poly_Fill p this x y v w = Inr (?r, this')" by blast
  note e = Fill_effect[OF f]
  note c = Fill_cases[OF f]
  let ?s1 = "UpdateGlobalStatistics (FillOverflowBin this (nat (- ?r - 1)) v w) x y v w"
  let ?cell = "fCells p ! nat (FindCell p x y)"
  have len: "length (fOverflowBins this) = 9"
    using assms(3) by (simp add: overflow_ok_def kNOverflow_def)
  have low: "x < fXaxis_Xmin p \<and> y < fYaxis_Xmin p \<longrightarrow>
              ?r = - 7 \<and> fSumw (fOverflowBins this' ! 6) = fSumw (fOverflowBins this ! 6) + w \<and>
              (\<forall>k < 9. k \<noteq> 6 \<longrightarrow> fOverflowBins this' ! k = fOverflowBins this ! k)"
  proof
    assume xy: "x < fXaxis_Xmin p \<and> y < fYaxis_Xmin p"
    then have r: "?r = - 7"
      using assms(2,4,5) by (simp add: GetOverflowRegionFromCoordinates_def)
    have ov: "fOverflowBins this' = (fOverflowBins this)[6 := TProfile2PolyBin_Fill (fOverflowBins this ! 6) v w]"
      using e by (simp add: r)
    show "?r = - 7 \<and> fSumw (fOverflowBins this' ! 6) = fSumw (fOverflowBins this ! 6) + w \<and>
              (\<forall>k < 9. k \<noteq> 6 \<longrightarrow> fOverflowBins this' ! k = fOverflowBins this ! k)"
      using r len by (simp add: ov)
  qed
  have inside: "list_all (\<lambda>i. \<not> IsInside p i x y) ?cell \<longrightarrow>
              fEntries this' = fEntries this \<and> fBins this' = fBins this"
  proof
    assume no: "list_all (\<lambda>i. \<not> IsInside p i x y) ?cell"
    have g: "0 \<le> FindCell p x y \<and> FindCell p x y < int (length (fCells p))"
      using FindCell_in_grid[of p x y] assms(1) by (simp add: partition_ok_def)
    then have "nat (FindCell p x y) < length (fCells p)" by linarith
    then have "?cell \<in> set (fCells p)" by simp
    with assms(1) have "list_all (\<lambda>i. i < length (fBins this)) ?cell"
      by (simp add: partition_ok_def list_all_iff)
    moreover have fb: "fBins ?s1 = fBins this" "fEntries ?s1 = fEntries this"
      by (simp_all add: UpdateGlobalStatistics_def FillOverflowBin_def)
    ultimately have "list_all (\<lambda>i. i < length (fBins ?s1) \<and> \<not> IsInside p i x y) ?cell"
      using no by (simp add: list_all_iff)
    then have "FillCell (IsInside p) ?cell x y v w ?s1 = Inr ?s1"
      by (rule FillCell_outside[of ?s1 "IsInside p" x y ?cell v w])
    with c have "this' = ?s1" by simp
    with fb show "fEntries this' = fEntries this \<and> fBins this' = fBins this" by simp
  qed
  have mid: "fXaxis_Xmin p < x \<and> x \<le> fXaxis_Xmax p \<longrightarrow> ?r = - 2 \<or> ?r = - 5 \<or> ?r = - 8"
    using assms(2) by (simp add: GetOverflowRegionFromCoordinates_def)
  from f e low inside mid show ?thesis by blast
qed

theorem C9_classification_witness:
  "partition_ok scenario_partition scenario_aggregator \<and> kNOverflow < fNcells scenario_aggregator \<and>
   overflow_ok scenario_aggregator \<and>
   fXaxis_Xmin scenario_partition \<le> fXaxis_Xmax scenario_partition \<and>
   fYaxis_Xmin scenario_partition \<le> fYaxis_Xmax scenario_partition \<and>
   - 1 < fXaxis_Xmin scenario_partition \<and> - 1 < fYaxis_Xmin scenario_partition \<and>
   list_all (\<lambda>i. \<not> IsInside scenario_partition i (- 1) (- 1))
     (fCells scenario_partition ! nat (FindCell scenario_partition (- 1) (- 1))) \<and>
   TProfile2Poly_Fill scenario_partition scenario_aggregator (- 1) (- 1) 5 1 = Inr (- 7, scenario_low) \<and>
   fTsumw scenario_low = fTsumw scenario_aggregator + 1 \<and>
   fEntries scenario_low = fEntries scenario_aggregator \<and>
   fSumw (fOverflowBins scenario_low ! 6) = fSumw (fOverflowBins scenario_aggregator ! 6) + 1 \<and>
   fXaxis_Xmin scenario_partition < 5 \<and> 5 \<le> fXaxis_Xmax scenario_partition \<and>
   TProfile2Poly_Fill scenario_partition scenario_aggregator 5 5 10 1 = Inr (- 5, scenario_filled)"
proof -
  have ax: "fXaxis_Xmin scenario_partition \<le> fXaxis_Xmax scenario_partition"
           "fYaxis_Xmin scenario_partition \<le> fYaxis_Xmax scenario_partition"
    by (simp_all add: scenario_partition_def)
  have lo: "- 1 < fXaxis_Xmin scenario_partition \<and> - 1 < fYaxis_Xmin scenario_partition"
    by (simp add: scenario_partition_def)
  have out: "list_all (\<lambda>i. \<not> IsInside scenario_partition i (- 1) (- 1))
     (fCells scenario_partition ! nat (FindCell scenario_partition (- 1) (- 1)))"
    by (simp add: scenario_partition_def FindCell_def)
  have mid: "fXaxis_Xmin scenario_partition < 5 \<and> 5 \<le> fXaxis_Xmax scenario_partition"
    by (simp add: scenario_partition_def)
  from C9_classification[OF scenario_partition_ok scenario_has_bin scenario_overflow_ok ax,
      of "- 1" "- 1" 5 1] lo out
  obtain r this' where
    a: "TProfile2Poly_Fill scenario_partition scenario_aggregator (- 1) (- 1) 5 1 = Inr (r, this')"
       "fTsumw this' = fTsumw scenario_aggregator + 1" "r = - 7"
       "fSumw (fOverflowBins this' ! 6) = fSumw (fOverflowBins scenario_aggregator ! 6) + 1"
       "fEntries this' = fEntries scenario_aggregator"
    by blast
  from a(1) have l: "scenario_low = this'" by (simp add: scenario_low_def)
  from C9_classification[OF scenario_partition_ok scenario_has_bin scenario_overflow_ok ax,
      of 5 5 10 1] mid
  obtain r' this'' where
    b: "TProfile2Poly_Fill scenario_partition scenario_aggregator 5 5 10 1 = Inr (r', this'')"
       "r' = - 2 \<or> r' = - 5 \<or> r' = - 8"
    by blast
  have "r' = GetOverflowRegionFromCoordinates scenario_partition scenario_aggregator 5 5"
    using Fill_effect[OF b(1)] by simp
  then have "r' = - 5"
    by (simp add: GetOverflowRegionFromCoordinates_def scenario_partition_def
        scenario_aggregator_value kNOverflow_def)
  with b(1) have f: "TProfile2Poly_Fill scenario_partition scenario_aggregator 5 5 10 1 = Inr (- 5, scenario_filled)"
    by (simp add: scenario_filled_def)
  from scenario_partition_ok scenario_has_bin scenario_overflow_ok ax lo out a mid f
  show ?thesis unfolding l by (intro conjI) simp_all
qed

subsection \<open>C10: one overflow accumulator for every call of \<^verbatim>\<open>Fill\<close>\<close>

text \<open>
  Claim C10 at a freshly constructed aggregator without registered bin: the region is 0
  by the first test of \<^verbatim>\<open>GetOverflowRegionFromCoordinates\<close>, its array index is \<open>-1\<close>,
  and \<^verbatim>\<open>Fill\<close> indexes \<^verbatim>\<open>fOverflowBins\<close> outside its nine elements. With a registered bin
  every returning call fills exactly one overflow accumulator and adds the weight to
  the global sum once (\<open>Fill_effect\<close>), and the sums agree (\<open>reachable_inv\<close>).
\<close>

theorem C10_fill_without_bins:
  "fBins scenario_empty = [] \<and> fNcells scenario_empty = kNOverflow \<and>
   GetOverflowRegionFromCoordinates scenario_partition scenario_empty 5 5 = 0 \<and>
   OverflowIdxToArrayIdx 0 = - 1 \<and>
   TProfile2Poly_Fill scenario_partition scenario_empty 5 5 10 1 = Inl OutOfBounds"
  using Fill_empty
  by (simp add: scenario_empty_value kNOverflow_def GetOverflowRegionFromCoordinates_def
      OverflowIdxToArrayIdx_def)

end
